theory Spec2Isabelle
  imports Complex_Main "HOL-Library.Sublist"
begin

section \<open>Shared conventions\<close>

text \<open>
  Python floats are modelled as mathematical reals: every product, sum and quotient of
  the source is the exact one. A \<open>datetime\<close> is a number of microseconds, the
  resolution of Python's \<open>datetime\<close>. A JSON text column is modelled by the value that
  \<open>json.loads\<close> decodes from it (a list for a JSON array). Names that start with an
  underscore in the source lose it here.
\<close>

type_synonym datetime = int

definition timedelta_days :: "int \<Rightarrow> int" where
  "timedelta_days d = d * 86400000000"

text \<open>
  \<open>truthy_str\<close> is Python's truth value of an \<open>Optional[str]\<close>: \<open>None\<close> and the
  empty string are false.
\<close>

fun truthy_str :: "string option \<Rightarrow> bool" where
  "truthy_str None = False"
| "truthy_str (Some s) = (s \<noteq> [])"

text \<open>
  \<open>order_by_desc key rows\<close> is \<open>ORDER BY key DESC\<close>; rows with equal keys stay in
  table order. \<open>first_row\<close> is \<open>.first()\<close>.
\<close>

definition order_by_desc :: "('a \<Rightarrow> int) \<Rightarrow> 'a list \<Rightarrow> 'a list" where
  "order_by_desc key rows = sort_key (\<lambda>r. - key r) rows"

definition order_by_asc :: "('a \<Rightarrow> int) \<Rightarrow> 'a list \<Rightarrow> 'a list" where
  "order_by_asc key rows = sort_key key rows"

fun first_row :: "'a list \<Rightarrow> 'a option" where
  "first_row [] = None"
| "first_row (r # _) = Some r"

section \<open>Similarity utility (interview\_backend/question\_selector.py)\<close>

text \<open>
  \<open>compute_jaccard_similarity(set1, set2)\<close>: \<open>len(set1 & set2) / len(set1 | set2)\<close> if
  the union is not empty, else \<open>0.0\<close>.
\<close>

definition compute_jaccard_similarity :: "'a set \<Rightarrow> 'a set \<Rightarrow> real" where
  "compute_jaccard_similarity set1 set2 =
     (let intersection = card (set1 \<inter> set2);
          union = card (set1 \<union> set2)
      in if union > 0 then real intersection / real union else 0)"

section \<open>Readiness aggregator (backend/services/readiness.py)\<close>

record CVAnalysisResult =
  cva_user_id :: string
  cva_job_spec_id :: string
  cva_created_at :: datetime
  match_score :: real
  strengths_json :: "string list"
  gaps_json :: "string list"

record RSession =
  rs_id :: string
  rs_user_id :: string
  rs_job_spec_id :: string
  rs_created_at :: datetime

text \<open>
  \<open>rt_overall\<close> is the \<open>"overall"\<close> entry of the decoded \<open>score_json\<close> object,
  \<open>None\<close> when the key is absent.
\<close>

record RTurn =
  rt_session_id :: string
  rt_turn_index :: int
  rt_question_id :: string
  rt_overall :: "real option"

record Breakdown =
  b_cv_score :: real
  b_interview_score :: real
  b_practice_score :: real
  b_weights :: "(string \<times> real) list"

record UserReadinessSnapshot =
  snap_user_id :: string
  snap_job_spec_id :: "string option"
  snap_timestamp :: datetime
  readiness_score :: real
  cv_score :: real
  interview_score :: real
  practice_score :: real
  breakdown_json :: Breakdown

record RDb =
  cv_analysis_results :: "CVAnalysisResult list"
  interview_sessions :: "RSession list"
  interview_turns :: "RTurn list"
  user_readiness_snapshots :: "UserReadinessSnapshot list"

text \<open>The query of \<open>_compute_cv_score\<close>: the latest analysis of this user and job.\<close>

definition latest_analysis_query :: "RDb \<Rightarrow> string \<Rightarrow> string option \<Rightarrow> CVAnalysisResult option" where
  "latest_analysis_query db user_id job_spec_id =
     first_row (order_by_desc cva_created_at
        (filter (\<lambda>a. cva_user_id a = user_id \<and> Some (cva_job_spec_id a) = job_spec_id)
           (cv_analysis_results db)))"

definition compute_cv_score :: "RDb \<Rightarrow> string \<Rightarrow> string option \<Rightarrow> real" where
  "compute_cv_score db user_id job_spec_id =
     (if \<not> truthy_str job_spec_id then 0
      else
        (case latest_analysis_query db user_id job_spec_id of
           None \<Rightarrow> 0
         | Some latest_analysis \<Rightarrow>
             (let base_score = match_score latest_analysis * 100;
                  strengths = strengths_json latest_analysis;
                  gaps = gaps_json latest_analysis;
                  coverage_bonus = min 10 (real (length strengths) * 2 - real (length gaps) * 1)
              in max 0 (min 100 (base_score + coverage_bonus)))))"

definition sessions_query :: "RDb \<Rightarrow> string \<Rightarrow> string option \<Rightarrow> RSession list" where
  "sessions_query db user_id job_spec_id =
     (let q = filter (\<lambda>s. rs_user_id s = user_id) (interview_sessions db)
      in if truthy_str job_spec_id
         then filter (\<lambda>s. Some (rs_job_spec_id s) = job_spec_id) q
         else q)"

definition startswith :: "string \<Rightarrow> string \<Rightarrow> bool" where
  "startswith s p = (take (length p) s = p)"

definition turn_weight :: "RTurn \<Rightarrow> real" where
  "turn_weight turn = (if startswith (rt_question_id turn) ''code:'' then 6 / 10 else 4 / 10)"

definition turn_overall :: "RTurn \<Rightarrow> real" where
  "turn_overall turn = (case rt_overall turn of None \<Rightarrow> 5 / 10 | Some v \<Rightarrow> v)"

definition compute_interview_score :: "RDb \<Rightarrow> string \<Rightarrow> string option \<Rightarrow> real" where
  "compute_interview_score db user_id job_spec_id =
     (case first_row (order_by_desc rs_created_at (sessions_query db user_id job_spec_id)) of
        None \<Rightarrow> 0
      | Some latest_session \<Rightarrow>
          (let turns = order_by_asc rt_turn_index
                 (filter (\<lambda>t. rt_session_id t = rs_id latest_session) (interview_turns db))
           in if turns = [] then 0
              else
                (let scores = map turn_overall turns;
                     weights = map turn_weight turns;
                     total_weight = sum_list weights;
                     avg_score =
                       (if total_weight = 0 then sum_list scores / real (length scores)
                        else sum_list (map (\<lambda>(s, w). s * w) (zip scores weights)) / total_weight)
                 in avg_score * 100)))"

text \<open>\<open>now\<close> is the value \<open>datetime.utcnow()\<close> returns inside the function.\<close>

definition compute_practice_score :: "RDb \<Rightarrow> string \<Rightarrow> string option \<Rightarrow> datetime \<Rightarrow> real" where
  "compute_practice_score db user_id job_spec_id now =
     (let all_sessions = sessions_query db user_id job_spec_id;
          session_count = length all_sessions
      in if session_count = 0 then 0
         else
           (let recent_cutoff = now - timedelta_days 7;
                recent_count = length (filter (\<lambda>s. rs_created_at s \<ge> recent_cutoff) all_sessions);
                trend_bonus = (if session_count \<ge> 2 then 5 else 0);
                count_score = min 50 (real session_count * 5);
                recency_bonus = min 30 (real recent_count * 10)
            in min 100 (count_score + recency_bonus + trend_bonus)))"

text \<open>
  \<open>compute_readiness_snapshot\<close> reads the clock twice: \<open>now\<close> inside
  \<open>_compute_practice_score\<close> and \<open>stamp\<close> for the snapshot. It returns the snapshot
  and the database with the snapshot added.
\<close>

definition compute_readiness_snapshot ::
  "RDb \<Rightarrow> string \<Rightarrow> string option \<Rightarrow> datetime \<Rightarrow> datetime \<Rightarrow> UserReadinessSnapshot \<times> RDb" where
  "compute_readiness_snapshot db user_id job_spec_id now stamp =
     (let cv = compute_cv_score db user_id job_spec_id;
          iv = compute_interview_score db user_id job_spec_id;
          pr = compute_practice_score db user_id job_spec_id now;
          rd = cv * (4 / 10) + iv * (5 / 10) + pr * (1 / 10);
          breakdown = \<lparr> b_cv_score = cv, b_interview_score = iv, b_practice_score = pr,
                        b_weights = [(''cv'', 4 / 10), (''interview'', 5 / 10), (''practice'', 1 / 10)] \<rparr>;
          snapshot = \<lparr> snap_user_id = user_id, snap_job_spec_id = job_spec_id,
                       snap_timestamp = stamp, readiness_score = rd, cv_score = cv,
                       interview_score = iv, practice_score = pr, breakdown_json = breakdown \<rparr>
      in (snapshot, db \<lparr> user_readiness_snapshots := user_readiness_snapshots db @ [snapshot] \<rparr>))"

text \<open>A small database: one analysis, three old sessions, one scored turn.\<close>

definition example_rdb :: RDb where
  "example_rdb =
     \<lparr> cv_analysis_results =
         [\<lparr> cva_user_id = ''u'', cva_job_spec_id = ''j'', cva_created_at = 5,
            match_score = 8 / 10, strengths_json = [], gaps_json = [] \<rparr>],
       interview_sessions =
         [\<lparr> rs_id = ''s1'', rs_user_id = ''u'', rs_job_spec_id = ''j'', rs_created_at = 1 \<rparr>,
          \<lparr> rs_id = ''s2'', rs_user_id = ''u'', rs_job_spec_id = ''j'', rs_created_at = 2 \<rparr>,
          \<lparr> rs_id = ''s3'', rs_user_id = ''u'', rs_job_spec_id = ''j'', rs_created_at = 3 \<rparr>],
       interview_turns =
         [\<lparr> rt_session_id = ''s3'', rt_turn_index = 0, rt_question_id = ''open:1'',
            rt_overall = Some (6 / 10) \<rparr>],
       user_readiness_snapshots = [] \<rparr>"

definition example_now :: datetime where
  "example_now = timedelta_days 30"

text \<open>
  The cv score as the specification words it: the match score scaled by 100, plus the
  bonus \<open>2 * strengths - gaps\<close> clamped to \<open>[0, 10]\<close>, the sum clamped to
  \<open>[0, 100]\<close>. It is compared with \<open>compute_cv_score\<close> below.
\<close>

definition cv_score_as_specified :: "real \<Rightarrow> nat \<Rightarrow> nat \<Rightarrow> real" where
  "cv_score_as_specified m s g =
     max 0 (min 100 (m * 100 + max 0 (min 10 (2 * real s - 1 * real g))))"

text \<open>A database whose only analysis lists five gaps and no strength.\<close>

definition example_gaps_rdb :: RDb where
  "example_gaps_rdb =
     \<lparr> cv_analysis_results =
         [\<lparr> cva_user_id = ''u'', cva_job_spec_id = ''j'', cva_created_at = 5,
            match_score = 5 / 10, strengths_json = [],
            gaps_json = [''g1'', ''g2'', ''g3'', ''g4'', ''g5''] \<rparr>],
       interview_sessions = [], interview_turns = [], user_readiness_snapshots = [] \<rparr>"

section \<open>Question selection (interview\_backend/question\_selector.py)\<close>

text \<open>The Python exceptions a modelled function can end with.\<close>

datatype error = ValueError | IndexError | KeyError | RuntimeError

datatype QuestionType = OPEN | CODE

text \<open>
  A row of \<open>question_bank\<close> (src/models/database.py). \<open>qb_topics\<close> is the list that
  \<open>json.loads(question.topics or "[]")\<close> yields.
\<close>

record QuestionBank =
  qb_id :: int
  qb_question_id :: string
  qb_question_type :: QuestionType
  qb_question_text :: string
  qb_topics :: "string list"
  qb_difficulty :: "string option"

record JobSpec =
  js_id :: int
  js_jd_hash :: string

record SSession =
  ss_id :: int
  ss_user_id :: int
  ss_job_spec_id :: int
  ss_started_at :: datetime

record STurn =
  st_session_id :: int
  st_question_id :: "int option"

record SDb =
  question_bank :: "QuestionBank list"
  job_specs :: "JobSpec list"
  sessions :: "SSession list"
  turns :: "STurn list"

definition MAX_RECENT_SESSIONS :: nat where
  "MAX_RECENT_SESSIONS = 3"

text \<open>
  \<open>str.lower()\<close>. A \<open>char\<close> stands for a code point below 256: the upper-case letters
  there are A to Z and 192 to 222 without the multiplication sign 215, each 32 below its
  lower-case letter.
\<close>

definition lower_char :: "char \<Rightarrow> char" where
  "lower_char c =
     (let n = (of_char c :: nat)
      in if (65 \<le> n \<and> n \<le> 90) \<or> (192 \<le> n \<and> n \<le> 222 \<and> n \<noteq> 215)
         then char_of (n + 32) else c)"

definition lower :: "string \<Rightarrow> string" where
  "lower s = map lower_char s"

text \<open>
  \<open>topic_weights\<close> is a dict, here the list of its items in iteration order.
  \<open>partial_match\<close> is the inner loop of \<open>compute_match_score\<close>: the first item whose key
  contains the topic or is contained in it; \<open>sublist\<close> is Python's \<open>in\<close> on strings.
\<close>

fun partial_match :: "string \<Rightarrow> (string \<times> real) list \<Rightarrow> real option" where
  "partial_match topic_lower [] = None"
| "partial_match topic_lower ((weight_topic, weight) # rest) =
     (if sublist topic_lower weight_topic \<or> sublist weight_topic topic_lower then Some weight
      else partial_match topic_lower rest)"

definition topic_score :: "(string \<times> real) list \<Rightarrow> string \<Rightarrow> real" where
  "topic_score topic_weights topic =
     (let topic_lower = lower topic
      in case map_of topic_weights topic_lower of
           Some w \<Rightarrow> w
         | None \<Rightarrow> (case partial_match topic_lower topic_weights of
                       Some weight \<Rightarrow> weight * (5 / 10)
                     | None \<Rightarrow> 0))"

definition compute_match_score :: "QuestionBank \<Rightarrow> (string \<times> real) list \<Rightarrow> real" where
  "compute_match_score question topic_weights =
     (let question_topics = qb_topics question
      in if question_topics = [] then 5 / 10
         else sum_list (map (topic_score topic_weights) question_topics)
                / real (max 1 (length question_topics)))"

text \<open>
  \<open>get_recent_question_ids\<close>: the ids of the last \<open>limit\<close> sessions of this user on the
  job spec with this hash (a join of sessions and job specs), then the question ids of
  their turns.
\<close>

definition get_recent_question_ids :: "SDb \<Rightarrow> int \<Rightarrow> string \<Rightarrow> nat \<Rightarrow> int set" where
  "get_recent_question_ids db user_id jd_hash limit =
     (let joined = concat (map (\<lambda>s. map (\<lambda>j. s)
                      (filter (\<lambda>j. js_id j = ss_job_spec_id s \<and> js_jd_hash j = jd_hash) (job_specs db)))
                      (filter (\<lambda>s. ss_user_id s = user_id) (sessions db)));
          recent_sessions = map ss_id (take limit (order_by_desc ss_started_at joined))
      in if recent_sessions = [] then {}
         else set (concat (map (\<lambda>t. case st_question_id t of None \<Rightarrow> [] | Some qid \<Rightarrow> [qid])
                 (filter (\<lambda>t. st_session_id t \<in> set recent_sessions) (turns db)))))"

text \<open>
  \<open>random.choices(population, weights, k=1)[0]\<close>. \<open>u\<close> is the value \<open>random()\<close>
  returns. The standard library accumulates the weights, raises \<open>ValueError\<close> when
  their total is not positive, and returns the element at the position where
  \<open>u * total\<close> bisects the cumulative weights, searched below the last index.
  On a sorted list \<open>bisect\<close> is the number of leading entries that are at most \<open>x\<close>.
\<close>

fun accumulate :: "real \<Rightarrow> real list \<Rightarrow> real list" where
  "accumulate acc [] = []"
| "accumulate acc (w # ws) = (acc + w) # accumulate (acc + w) ws"

definition bisect :: "real list \<Rightarrow> real \<Rightarrow> nat \<Rightarrow> nat" where
  "bisect a x hi = length (takeWhile (\<lambda>c. c \<le> x) (take hi a))"

definition random_choices :: "real \<Rightarrow> 'a list \<Rightarrow> real list \<Rightarrow> error + 'a" where
  "random_choices u population weights =
     (if population = [] then Inl IndexError
      else if length weights \<noteq> length population then Inl ValueError
      else
        (let cum_weights = accumulate 0 weights;
             total = last cum_weights
         in if total \<le> 0 then Inl ValueError
            else Inr (population ! bisect cum_weights (u * total) (length population - 1))))"

text \<open>Python's \<open>xs[:k]\<close>: a negative \<open>k\<close> counts from the end.\<close>

definition py_slice_to :: "int \<Rightarrow> 'a list \<Rightarrow> 'a list" where
  "py_slice_to k xs =
     (if k < 0 then take (nat (int (length xs) + k)) xs else take (nat k) xs)"

text \<open>The variables of the selection loop of \<open>select_questions\<close>.\<close>

record sel_state =
  selected :: "QuestionBank list"
  used_ids :: "int set"
  top_candidates :: "(QuestionBank \<times> real) list"

definition topics_union :: "QuestionBank list \<Rightarrow> string set" where
  "topics_union qs = \<Union> (set (map (\<lambda>q. set (qb_topics q)) qs))"

datatype step_result = Break | Raise error | Next sel_state

text \<open>
  One pass through the loop body. \<open>Break\<close> is the \<open>break\<close> on an empty \<open>remaining\<close>,
  \<open>Raise\<close> an exception of \<open>random.choices\<close>, \<open>Next\<close> the variables at the end of the
  pass (after \<open>continue\<close> in the discarding branch).
\<close>

definition select_step :: "real \<Rightarrow> sel_state \<Rightarrow> step_result" where
  "select_step u st =
     (let remaining = filter (\<lambda>sq. qb_id (fst sq) \<notin> used_ids st) (top_candidates st)
      in if remaining = [] then Break
         else
           (let weights = map (\<lambda>sq. (snd sq)\<^sup>2) remaining
            in case random_choices u remaining weights of
                 Inl e \<Rightarrow> Raise e
               | Inr chosen \<Rightarrow>
                   (let selected1 = selected st @ [fst chosen];
                        used1 = insert (qb_id (fst chosen)) (used_ids st)
                    in if length selected1 > 1 then
                         (let selected_topics = topics_union (butlast selected1);
                              new_topics = set (qb_topics (fst chosen));
                              overlap = compute_jaccard_similarity selected_topics new_topics
                          in if overlap > 8 / 10 \<and> length remaining > 1
                             then Next \<lparr> selected = butlast selected1,
                                         used_ids = used1 - {qb_id (fst chosen)},
                                         top_candidates = remove1 chosen (top_candidates st) \<rparr>
                             else Next \<lparr> selected = selected1, used_ids = used1,
                                         top_candidates = top_candidates st \<rparr>)
                       else Next \<lparr> selected = selected1, used_ids = used1,
                                   top_candidates = top_candidates st \<rparr>)))"

function select_loop :: "(nat \<Rightarrow> real) \<Rightarrow> int \<Rightarrow> nat \<Rightarrow> sel_state \<Rightarrow> error + sel_state" where
  "select_loop rng num_questions k st =
     (if int (length (selected st)) < num_questions \<and> top_candidates st \<noteq> [] then
        (case select_step (rng k) st of
           Break \<Rightarrow> Inr st
         | Raise e \<Rightarrow> Inl e
         | Next st' \<Rightarrow> select_loop rng num_questions (Suc k) st')
      else Inr st)"
  by pat_completeness auto

termination
proof (relation "measure (\<lambda>(rng, n, k, st).
        nat (n - int (length (selected st))) + length (top_candidates st))")
  show "wf (measure (\<lambda>(rng :: nat \<Rightarrow> real, n, k :: nat, st).
        nat (n - int (length (selected st))) + length (top_candidates st)))"
    by simp
next
  fix rng :: "nat \<Rightarrow> real" and num_questions :: int and k :: nat and st st' :: sel_state
  assume guard: "int (length (selected st)) < num_questions \<and> top_candidates st \<noteq> []"
    and step: "select_step (rng k) st = Next st'"
  let ?rem = "filter (\<lambda>sq. qb_id (fst sq) \<notin> used_ids st) (top_candidates st)"
  let ?ws = "map (\<lambda>sq. (snd sq)\<^sup>2) ?rem"
  from step obtain chosen where ch: "random_choices (rng k) ?rem ?ws = Inr chosen"
    by (auto simp: select_step_def Let_def split: if_splits sum.splits)
  then have ne: "?rem \<noteq> []"
    by (auto simp: random_choices_def)
  have "bisect (accumulate 0 ?ws) (rng k * last (accumulate 0 ?ws)) (length ?rem - 1)
      \<le> length ?rem - 1"
    unfolding bisect_def by (rule order_trans [OF length_takeWhile_le]) simp
  with ne have idx: "bisect (accumulate 0 ?ws) (rng k * last (accumulate 0 ?ws)) (length ?rem - 1)
      < length ?rem"
    by (cases ?rem) simp_all
  from ch ne have "chosen
      = ?rem ! bisect (accumulate 0 ?ws) (rng k * last (accumulate 0 ?ws)) (length ?rem - 1)"
    by (auto simp: random_choices_def Let_def split: if_splits)
  with nth_mem [OF idx] have "chosen \<in> set ?rem"
    by (simp only:)
  then have mem: "chosen \<in> set (top_candidates st)" by simp
  have "length (remove1 chosen (top_candidates st)) < length (top_candidates st)"
    using length_pos_if_in_set [OF mem] mem by (simp add: length_remove1)
  with step ch guard
  show "((rng, num_questions, Suc k, st'), (rng, num_questions, k, st))
      \<in> measure (\<lambda>(rng, n, k, st).
          nat (n - int (length (selected st))) + length (top_candidates st))"
    by (auto simp: select_step_def Let_def split: if_splits)
qed

declare select_loop.simps [simp del]

definition candidates_query :: "SDb \<Rightarrow> QuestionType \<Rightarrow> string option \<Rightarrow> QuestionBank list" where
  "candidates_query db question_type difficulty_filter =
     (let query = filter (\<lambda>q. qb_question_type q = question_type) (question_bank db)
      in if truthy_str difficulty_filter
         then filter (\<lambda>q. qb_difficulty q = difficulty_filter) query
         else query)"

text \<open>\<open>recent_ids\<close> after the optional update with \<open>exclude_question_ids\<close>.\<close>

definition excluded_ids :: "SDb \<Rightarrow> int \<Rightarrow> string \<Rightarrow> int set option \<Rightarrow> int set" where
  "excluded_ids db user_id jd_hash exclude_question_ids =
     (let recent_ids = get_recent_question_ids db user_id jd_hash MAX_RECENT_SESSIONS
      in case exclude_question_ids of
           None \<Rightarrow> recent_ids
         | Some ex \<Rightarrow> if ex \<noteq> {} then recent_ids \<union> ex else recent_ids)"

text \<open>The candidates kept after the exclusion, with the fallback to all of them.\<close>

definition filtered_candidates :: "QuestionBank list \<Rightarrow> int set \<Rightarrow> QuestionBank list" where
  "filtered_candidates candidates recent_ids =
     (let filtered = filter (\<lambda>q. qb_id q \<notin> recent_ids) candidates
      in if filtered = [] then candidates else filtered)"

text \<open>
  \<open>scored_questions\<close> after the descending sort (Python's sort is stable, also with
  \<open>reverse=True\<close>), cut to the first \<open>top_k\<close> entries.
\<close>

definition sampling_pool ::
  "(string \<times> real) list \<Rightarrow> int \<Rightarrow> QuestionBank list \<Rightarrow> (QuestionBank \<times> real) list" where
  "sampling_pool topic_weights num_questions filtered =
     (let scored_questions = sort_key (\<lambda>x. - snd x)
            (map (\<lambda>q. (q, compute_match_score q topic_weights)) filtered);
          top_k = min (num_questions * 3) (int (length scored_questions))
      in py_slice_to top_k scored_questions)"

definition select_questions ::
  "SDb \<Rightarrow> (nat \<Rightarrow> real) \<Rightarrow> (string \<times> real) list \<Rightarrow> QuestionType \<Rightarrow> int \<Rightarrow> int \<Rightarrow> string
     \<Rightarrow> int set option \<Rightarrow> string option \<Rightarrow> error + QuestionBank list" where
  "select_questions db rng topic_weights question_type num_questions user_id jd_hash
       exclude_question_ids difficulty_filter =
     (let candidates = candidates_query db question_type difficulty_filter
      in if candidates = [] then Inr []
         else
           (let recent_ids = excluded_ids db user_id jd_hash exclude_question_ids;
                filtered = filtered_candidates candidates recent_ids;
                top = sampling_pool topic_weights num_questions filtered
            in case select_loop rng num_questions 0
                      \<lparr> selected = [], used_ids = {}, top_candidates = top \<rparr> of
                 Inl e \<Rightarrow> Inl e
               | Inr st \<Rightarrow> Inr (py_slice_to num_questions (selected st))))"

definition initial_state ::
  "SDb \<Rightarrow> (string \<times> real) list \<Rightarrow> QuestionType \<Rightarrow> int \<Rightarrow> int \<Rightarrow> string
     \<Rightarrow> int set option \<Rightarrow> string option \<Rightarrow> sel_state" where
  "initial_state db topic_weights question_type num_questions user_id jd_hash
       exclude_question_ids difficulty_filter =
     \<lparr> selected = [], used_ids = {},
       top_candidates = sampling_pool topic_weights num_questions
         (filtered_candidates (candidates_query db question_type difficulty_filter)
            (excluded_ids db user_id jd_hash exclude_question_ids)) \<rparr>"

definition overlap_at :: "QuestionBank list \<Rightarrow> nat \<Rightarrow> real" where
  "overlap_at qs i =
     compute_jaccard_similarity (topics_union (take i qs)) (set (qb_topics (qs ! i)))"

definition mk_question :: "int \<Rightarrow> string list \<Rightarrow> QuestionBank" where
  "mk_question i ts =
     \<lparr> qb_id = i, qb_question_id = ''open:q'', qb_question_type = OPEN,
       qb_question_text = ''text'', qb_topics = ts, qb_difficulty = None \<rparr>"

definition example_weights :: "(string \<times> real) list" where
  "example_weights = [(''a'', 1), (''b'', 1), (''c'', 1), (''d'', 1)]"

definition example_sdb :: SDb where
  "example_sdb =
     \<lparr> question_bank =
         [mk_question 1 [''a''], mk_question 2 [''b''], mk_question 3 [''a''],
          mk_question 4 [''c''], mk_question 5 [''d''], mk_question 6 [''a'']],
       job_specs = [\<lparr> js_id = 1, js_jd_hash = ''h'' \<rparr>],
       sessions = [\<lparr> ss_id = 10, ss_user_id = 7, ss_job_spec_id = 1, ss_started_at = 100 \<rparr>],
       turns = [\<lparr> st_session_id = 10, st_question_id = Some 6 \<rparr>] \<rparr>"

definition zero_rng :: "nat \<Rightarrow> real" where
  "zero_rng k = 0"


definition diverse :: "sel_state \<Rightarrow> bool" where
  "diverse s \<longleftrightarrow>
     used_ids s = qb_id ` set (selected s)
     \<and> (\<forall>i. 0 < i \<and> Suc i < length (selected s) \<longrightarrow> overlap_at (selected s) i \<le> 8 / 10)
     \<and> (1 < length (selected s)
          \<and> overlap_at (selected s) (length (selected s) - 1) > 8 / 10
        \<longrightarrow> (\<forall>sq \<in> set (top_candidates s). qb_id (fst sq) \<in> used_ids s))"

definition loop_inv :: "(QuestionBank \<times> real) list \<Rightarrow> int \<Rightarrow> sel_state \<Rightarrow> bool" where
  "loop_inv pool n s \<longleftrightarrow>
     (used_ids s = qb_id ` set (selected s) \<and> distinct (map qb_id (selected s)))
     \<and> (set (selected s) \<subseteq> fst ` set pool \<and> set (top_candidates s) \<subseteq> set pool)
     \<and> length (selected s) \<le> nat n
     \<and> diverse s"

section \<open>Turn state machine (backend/services/interview\_agent.py)\<close>

text \<open>
  Subscription \<open>plan_items[i]\<close> as Python evaluates it: a position from the front for
  \<open>0 \<le> i\<close>, from the back for \<open>i < 0\<close>, and \<open>IndexError\<close> beyond either end.
\<close>

definition py_getitem :: "'a list \<Rightarrow> int \<Rightarrow> error + 'a" where
  "py_getitem xs i =
     (if 0 \<le> i \<and> i < int (length xs) then Inr (xs ! nat i)
      else if i < 0 \<and> - int (length xs) \<le> i then Inr (xs ! nat (int (length xs) + i))
      else Inl IndexError)"

text \<open>
  \<open>str.strip()\<close>: the white space Python knows among the code points below 256.
\<close>

definition is_space :: "char \<Rightarrow> bool" where
  "is_space c = ((of_char c :: nat) \<in> {9, 10, 11, 12, 13, 28, 29, 30, 31, 32, 133, 160})"

definition strip :: "string \<Rightarrow> string" where
  "strip s = rev (dropWhile is_space (rev (dropWhile is_space s)))"

text \<open>A row of \<open>question_bank\<close> as the agent reads it.\<close>

record AQuestion =
  aq_id :: string
  aq_question_text :: string
  aq_topics_json :: "string list"

text \<open>A plan item: the keys \<open>selected_question_id\<close> and \<open>type\<close> of the dict.\<close>

record PlanItem =
  selected_question_id :: "string option"
  item_type :: "string option"

definition empty_item :: PlanItem where
  "empty_item = \<lparr> selected_question_id = None, item_type = None \<rparr>"

definition get_type :: "PlanItem \<Rightarrow> string" where
  "get_type item = (case item_type item of None \<Rightarrow> ''open'' | Some t \<Rightarrow> t)"

text \<open>
  The \<open>state\<close> dict inside \<open>process_turn\<close>: the five keys \<open>_load_state\<close> builds, and
  the keys \<open>refined_q_<index>\<close> as a map from the index.
\<close>

record State =
  s_current_question_id :: "string option"
  s_followup_count :: int
  s_question_index :: int
  s_initial_answer_score :: real
  s_previous_followups :: "string list"
  s_refined_q :: "int \<rightharpoonup> string"

text \<open>
  The decoded \<open>conversation_state_json\<close>: every key may be absent (\<open>None\<close>).
\<close>

record StoredState =
  cs_current_question_id :: "string option"
  cs_followup_count :: "int option"
  cs_question_index :: "int option"
  cs_initial_answer_score :: "real option"
  cs_previous_followups :: "string list option"
  cs_refined_q :: "int \<rightharpoonup> string"

definition empty_stored :: StoredState where
  "empty_stored =
     \<lparr> cs_current_question_id = None, cs_followup_count = None, cs_question_index = None,
       cs_initial_answer_score = None, cs_previous_followups = None, cs_refined_q = Map.empty \<rparr>"

record ASession =
  as_id :: string
  conversation_state_json :: "StoredState option"
  ended_at :: "datetime option"
  language :: "string option"
  persona :: "string option"
  question_start_time :: "datetime option"

record AgentDecision =
  action :: string
  message :: "string option"
  d_followup_question :: "string option"
  satisfaction_score :: real
  reasoning_trace :: "string list"

record ATurn =
  at_id :: string
  at_session_id :: string
  at_turn_index :: nat
  at_question_id :: string
  at_question_snapshot :: string
  at_user_transcript :: string
  at_user_code :: "string option"
  at_score_overall :: real
  at_topics_json :: "string list"
  at_parent_turn_id :: "string option"
  at_question_number :: int
  at_is_followup :: bool
  at_time_spent_seconds :: int
  at_agent_analysis_json :: AgentDecision

record Request =
  rq_session_id :: string
  rq_user_transcript :: string
  rq_user_code :: "string option"
  rq_elapsed_seconds :: "int option"

record AgentContext =
  ctx_session_id :: string
  ctx_question :: AQuestion
  ctx_request :: Request
  ctx_plan_items :: "PlanItem list"
  ctx_role_profile :: string
  ctx_state :: State
  ctx_persona :: string
  ctx_language :: string

record NextQuestion =
  nq_question_id :: string
  nq_text :: string
  nq_type :: string
  nq_topics :: "string list"

record Response =
  r_interviewer_message :: string
  r_followup_question :: "string option"
  r_next_question :: "NextQuestion option"
  r_is_done :: bool
  r_progress_turn_index :: int
  r_progress_total :: nat
  r_agent_decision :: "string option"
  r_agent_confidence :: "real option"

text \<open>
  What a call reads from outside: \<open>call_llm k system prompt\<close> is the answer of the
  language model to the \<open>k\<close>-th call made on this database (an exception, \<open>None\<close> or a
  text), \<open>reasoning_run\<close> the reasoning loop, \<open>utcnow\<close> the clock and \<open>uuid4\<close> the new
  turn's id.
\<close>

record Env =
  call_llm :: "nat \<Rightarrow> string \<Rightarrow> string \<Rightarrow> error + string option"
  reasoning_run :: "AgentContext \<Rightarrow> error + AgentDecision"
  utcnow :: datetime
  uuid4 :: string

text \<open>
  The database session with the interview session row the call works on;
  \<open>w_llm_calls\<close> counts the calls of \<open>call_llm\<close> made so far.
\<close>

record World =
  w_session :: ASession
  w_turns :: "ATurn list"
  w_question_bank :: "AQuestion list"
  w_llm_calls :: nat

definition load_state :: "ASession \<Rightarrow> State" where
  "load_state interview_session =
     (let state = (case conversation_state_json interview_session of
                     None \<Rightarrow> empty_stored | Some s \<Rightarrow> s)
      in \<lparr> s_current_question_id = cs_current_question_id state,
           s_followup_count = (case cs_followup_count state of None \<Rightarrow> 0 | Some n \<Rightarrow> n),
           s_question_index = (case cs_question_index state of None \<Rightarrow> 0 | Some n \<Rightarrow> n),
           s_initial_answer_score = (case cs_initial_answer_score state of None \<Rightarrow> 0 | Some x \<Rightarrow> x),
           s_previous_followups = (case cs_previous_followups state of None \<Rightarrow> [] | Some l \<Rightarrow> l),
           s_refined_q = Map.empty \<rparr>)"

definition save_state :: "World \<Rightarrow> State \<Rightarrow> World" where
  "save_state w state =
     w \<lparr> w_session := (w_session w) \<lparr> conversation_state_json := Some
           \<lparr> cs_current_question_id = s_current_question_id state,
             cs_followup_count = Some (s_followup_count state),
             cs_question_index = Some (s_question_index state),
             cs_initial_answer_score = Some (s_initial_answer_score state),
             cs_previous_followups = Some (s_previous_followups state),
             cs_refined_q = s_refined_q state \<rparr> \<rparr> \<rparr>"

text \<open>\<open>session.get(QuestionBank, question_id)\<close>.\<close>

definition session_get :: "AQuestion list \<Rightarrow> string option \<Rightarrow> AQuestion option" where
  "session_get bank question_id =
     (case question_id of None \<Rightarrow> None | Some i \<Rightarrow> find (\<lambda>q. aq_id q = i) bank)"

definition get_last_main_turn :: "string \<Rightarrow> ATurn list \<Rightarrow> ATurn option" where
  "get_last_main_turn session_id all_turns =
     first_row (order_by_desc (\<lambda>t. int (at_turn_index t))
        (filter (\<lambda>t. at_session_id t = session_id \<and> at_is_followup t = False) all_turns))"

text \<open>
  The two prompts of \<open>_refine_and_translate\<close>; the instruction lines are shortened, the
  question text and type are inserted as in the source.
\<close>

definition hebrew_prompt :: "string \<Rightarrow> string \<Rightarrow> string" where
  "hebrew_prompt text type =
     ''Task: Translate and Refine Interview Question. Original Question: '' @ text
       @ '' Question Type: '' @ type @ '' Hebrew Question:''"

definition english_prompt :: "string \<Rightarrow> string \<Rightarrow> string" where
  "english_prompt text type =
     ''Task: Refine Interview Question. Original Question: '' @ text
       @ '' Question Type: '' @ type @ '' Refined Question:''"

text \<open>
  \<open>_refine_and_translate\<close> returns the text and the number of model calls made so far.
  A Hebrew call that answers nothing usable falls through to the English refinement; a
  Hebrew call that raises returns the original text.
\<close>

definition usable :: "string option \<Rightarrow> bool" where
  "usable result = (case result of None \<Rightarrow> False | Some r \<Rightarrow> r \<noteq> [] \<and> strip r \<noteq> [])"

definition english_refine :: "Env \<Rightarrow> nat \<Rightarrow> string \<Rightarrow> string \<Rightarrow> string \<times> nat" where
  "english_refine env calls text type =
     (case call_llm env calls ''You are an expert technical interviewer.''
             (english_prompt text type) of
        Inl e \<Rightarrow> (text, Suc calls)
      | Inr result \<Rightarrow>
          if usable result then (strip (the result), Suc calls) else (text, Suc calls))"

definition refine_and_translate ::
  "Env \<Rightarrow> nat \<Rightarrow> string \<Rightarrow> string \<Rightarrow> string \<Rightarrow> string \<times> nat" where
  "refine_and_translate env calls text type lang =
     (if lang \<noteq> [] \<and> lower lang = ''hebrew'' then
        (case call_llm env calls ''You are an expert Hebrew technical interviewer.''
                (hebrew_prompt text type) of
           Inl e \<Rightarrow> (text, Suc calls)
         | Inr result \<Rightarrow>
             if usable result then (strip (the result), Suc calls)
             else english_refine env (Suc calls) text type)
      else english_refine env calls text type)"

definition session_language :: "ASession \<Rightarrow> string" where
  "session_language interview_session =
     (case language interview_session of
        None \<Rightarrow> ''english''
      | Some l \<Rightarrow> if l \<noteq> [] then l else ''english'')"

definition session_persona :: "ASession \<Rightarrow> string" where
  "session_persona interview_session =
     (case persona interview_session of None \<Rightarrow> ''friendly'' | Some p \<Rightarrow> p)"

definition error_response :: "int \<Rightarrow> nat \<Rightarrow> Response" where
  "error_response question_index total_items =
     \<lparr> r_interviewer_message = ''Sorry, I hit an error loading the question.'',
       r_followup_question = None, r_next_question = None, r_is_done = True,
       r_progress_turn_index = question_index, r_progress_total = total_items,
       r_agent_decision = None, r_agent_confidence = None \<rparr>"

definition complete_response :: "int \<Rightarrow> nat \<Rightarrow> Response" where
  "complete_response question_index total_items =
     \<lparr> r_interviewer_message = ''Thank you! The interview is complete.'',
       r_followup_question = None, r_next_question = None, r_is_done = True,
       r_progress_turn_index = question_index, r_progress_total = total_items,
       r_agent_decision = None, r_agent_confidence = None \<rparr>"

definition fallback_decision :: AgentDecision where
  "fallback_decision =
     \<lparr> action = ''advance'', message = Some ''Let's continue with the next question.'',
       d_followup_question = None, satisfaction_score = 5 / 10, reasoning_trace = [] \<rparr>"

text \<open>
  \<open>_get_next_question_data\<close>, with the state and the database it leaves behind.
\<close>

definition get_next_question_data ::
  "Env \<Rightarrow> int \<Rightarrow> PlanItem list \<Rightarrow> string \<Rightarrow> State \<Rightarrow> World
     \<Rightarrow> error + (NextQuestion option \<times> State \<times> World)" where
  "get_next_question_data env next_index plan_items lang state w =
     (if next_index \<ge> int (length plan_items) then Inr (None, state, w)
      else
        (case py_getitem plan_items next_index of
           Inl e \<Rightarrow> Inl e
         | Inr next_item \<Rightarrow>
             (case session_get (w_question_bank w) (selected_question_id next_item) of
                None \<Rightarrow> Inr (None, state, w)
              | Some next_question \<Rightarrow>
                  (let (question_text, state', w') =
                         (case s_refined_q state next_index of
                            Some t \<Rightarrow> (t, state, w)
                          | None \<Rightarrow>
                              (let (t, calls) = refine_and_translate env (w_llm_calls w)
                                     (aq_question_text next_question) (get_type next_item) lang;
                                   state1 = state \<lparr> s_refined_q := (s_refined_q state)(next_index \<mapsto> t) \<rparr>
                               in (t, state1, save_state (w \<lparr> w_llm_calls := calls \<rparr>) state1)))
                   in Inr (Some \<lparr> nq_question_id = aq_id next_question, nq_text = question_text,
                                   nq_type = get_type next_item,
                                   nq_topics = aq_topics_json next_question \<rparr>,
                           state', w')))))"

definition create_turn ::
  "Env \<Rightarrow> Request \<Rightarrow> AQuestion \<Rightarrow> int \<Rightarrow> int \<Rightarrow> AgentDecision \<Rightarrow> ATurn list \<Rightarrow> ATurn" where
  "create_turn env request question question_index followup_count decision all_turns =
     \<lparr> at_id = uuid4 env,
       at_session_id = rq_session_id request,
       at_turn_index = length (filter (\<lambda>t. at_session_id t = rq_session_id request) all_turns),
       at_question_id = aq_id question,
       at_question_snapshot = aq_question_text question,
       at_user_transcript = rq_user_transcript request,
       at_user_code = rq_user_code request,
       at_score_overall = satisfaction_score decision,
       at_topics_json = aq_topics_json question,
       at_parent_turn_id =
         (if followup_count > 0 then
            (case get_last_main_turn (rq_session_id request) all_turns of
               None \<Rightarrow> None | Some parent_turn \<Rightarrow> Some (at_id parent_turn))
          else None),
       at_question_number = question_index,
       at_is_followup = (followup_count > 0),
       at_time_spent_seconds = (case rq_elapsed_seconds request of None \<Rightarrow> 0 | Some n \<Rightarrow> n),
       at_agent_analysis_json = decision \<rparr>"

text \<open>The two Hebrew transition messages, transliterated.\<close>

definition advance_message :: "AgentDecision \<Rightarrow> bool \<Rightarrow> string \<Rightarrow> string" where
  "advance_message decision has_next lang =
     (if truthy_str (message decision) then the (message decision)
      else if has_next then
        (if lower lang = ''hebrew'' then ''bo namshikh la-sheela ha-baa.''
         else ''Let's move to the next question.'')
      else
        (if lower lang = ''hebrew'' then ''metsuyan! bo namshikh.''
         else ''Great! Let's continue.''))"

definition process_decision ::
  "Env \<Rightarrow> AgentDecision \<Rightarrow> AQuestion \<Rightarrow> string option \<Rightarrow> int \<Rightarrow> int \<Rightarrow> string list
     \<Rightarrow> PlanItem list \<Rightarrow> State \<Rightarrow> string \<Rightarrow> World \<Rightarrow> error + (Response \<times> World)" where
  "process_decision env decision question question_id question_index followup_count
       previous_followups plan_items state lang w =
     (if action decision = ''followup'' \<and> truthy_str (d_followup_question decision) then
        (let state1 = state \<lparr> s_current_question_id := question_id,
                              s_followup_count := followup_count + 1,
                              s_initial_answer_score := satisfaction_score decision,
                              s_previous_followups :=
                                previous_followups @ [the (d_followup_question decision)] \<rparr>;
             w1 = save_state w state1;
             msg = (if truthy_str (message decision) then the (message decision)
                    else the (d_followup_question decision))
         in Inr (\<lparr> r_interviewer_message = msg,
                   r_followup_question = d_followup_question decision,
                   r_next_question = None, r_is_done = False,
                   r_progress_turn_index = question_index + 1,
                   r_progress_total = length plan_items,
                   r_agent_decision = Some (action decision),
                   r_agent_confidence = Some (satisfaction_score decision) \<rparr>, w1))
      else if action decision = ''hint'' then
        Inr (\<lparr> r_interviewer_message =
                  (if truthy_str (message decision) then the (message decision)
                   else ''Let me give you a hint.''),
                r_followup_question = None, r_next_question = None, r_is_done = False,
                r_progress_turn_index = question_index + 1,
                r_progress_total = length plan_items,
                r_agent_decision = Some (action decision), r_agent_confidence = None \<rparr>, w)
      else if action decision = ''end'' then
        Inr (\<lparr> r_interviewer_message =
                  (if truthy_str (message decision) then the (message decision)
                   else ''Thank you for your time today.''),
                r_followup_question = None, r_next_question = None, r_is_done = True,
                r_progress_turn_index = question_index + 1,
                r_progress_total = length plan_items,
                r_agent_decision = Some (action decision), r_agent_confidence = None \<rparr>,
             w \<lparr> w_session := (w_session w) \<lparr> ended_at := Some (utcnow env) \<rparr> \<rparr>)
      else
        (let state1 = state \<lparr> s_question_index := question_index + 1, s_followup_count := 0,
                              s_previous_followups := [] \<rparr>;
             w1 = save_state w state1
         in case get_next_question_data env (question_index + 1) plan_items lang state1 w1 of
              Inl e \<Rightarrow> Inl e
            | Inr (next_question_data, state2, w2) \<Rightarrow>
                (let w3 = w2 \<lparr> w_session := (w_session w2)
                              \<lparr> question_start_time := Some (utcnow env) \<rparr> \<rparr>
                 in Inr (\<lparr> r_interviewer_message =
                             advance_message decision (next_question_data \<noteq> None) lang,
                           r_followup_question = None,
                           r_next_question = next_question_data,
                           r_is_done = (question_index + 1 \<ge> int (length plan_items)),
                           r_progress_turn_index = question_index + 1,
                           r_progress_total = length plan_items,
                           r_agent_decision = Some (action decision),
                           r_agent_confidence = Some (satisfaction_score decision) \<rparr>, w3))))"

text \<open>The question the turn is about: \<open>Inr None\<close> when the bank has no such row.\<close>

definition current_question ::
  "State \<Rightarrow> PlanItem list \<Rightarrow> AQuestion list \<Rightarrow> error + (PlanItem \<times> string option \<times> AQuestion option)" where
  "current_question state plan_items bank =
     (case (if s_question_index state < int (length plan_items)
            then py_getitem plan_items (s_question_index state) else Inr empty_item) of
        Inl e \<Rightarrow> Inl e
      | Inr plan_item \<Rightarrow>
          (let question_id = (if s_followup_count state > 0 then s_current_question_id state
                              else selected_question_id plan_item)
           in Inr (plan_item, question_id, session_get bank question_id)))"

text \<open>
  The refinement check of \<open>process_turn\<close>: the text for the question, the state and the
  database afterwards.
\<close>

definition refinement_check ::
  "Env \<Rightarrow> AQuestion \<Rightarrow> PlanItem \<Rightarrow> State \<Rightarrow> World \<Rightarrow> string \<times> State \<times> World" where
  "refinement_check env question plan_item state w =
     (case s_refined_q state (s_question_index state) of
        Some t \<Rightarrow> (t, state, w)
      | None \<Rightarrow>
          (let lang = session_language (w_session w);
               (refined_text, calls) = refine_and_translate env (w_llm_calls w)
                  (aq_question_text question) (get_type plan_item) lang;
               state1 = state \<lparr> s_refined_q := (s_refined_q state)(s_question_index state \<mapsto> refined_text) \<rparr>
           in (refined_text, state1, save_state (w \<lparr> w_llm_calls := calls \<rparr>) state1)))"

text \<open>The decision of the reasoning loop, with the fallback when it raises.\<close>

definition run_reasoning :: "Env \<Rightarrow> AgentContext \<Rightarrow> AgentDecision" where
  "run_reasoning env context =
     (case reasoning_run env context of Inl e \<Rightarrow> fallback_decision | Inr decision \<Rightarrow> decision)"

text \<open>
  \<open>process_turn\<close> in three stages. \<open>begin_turn\<close> is the function up to the built
  agent context: it ends with the completion response, an exception, the error response
  for a missing question, or the local variables of a turn that goes on (\<open>Ready\<close>).
  \<open>run_reasoning\<close> is the reasoning step with its fallback. \<open>finish_turn\<close> records the
  turn and processes the decision.
\<close>

record ReadyTurn =
  rd_followup_count :: int
  rd_question_index :: int
  rd_previous_followups :: "string list"
  rd_question_id :: "string option"
  rd_question :: AQuestion
  rd_state :: State
  rd_world :: World
  rd_language :: string
  rd_context :: AgentContext

datatype turn_start =
  Completed Response World | Failed error | Missing Response | Ready ReadyTurn

definition begin_turn ::
  "Env \<Rightarrow> Request \<Rightarrow> PlanItem list \<Rightarrow> string \<Rightarrow> World \<Rightarrow> turn_start" where
  "begin_turn env request plan_items role_profile w =
     (let state = load_state (w_session w);
          followup_count = s_followup_count state;
          question_index = s_question_index state;
          previous_followups = s_previous_followups state
      in if followup_count = 0 \<and> question_index \<ge> int (length plan_items) then
           Completed (complete_response question_index (length plan_items))
             (w \<lparr> w_session := (w_session w) \<lparr> ended_at := Some (utcnow env) \<rparr> \<rparr>)
         else
           (case current_question state plan_items (w_question_bank w) of
              Inl e \<Rightarrow> Failed e
            | Inr (plan_item, question_id, None) \<Rightarrow>
                Missing (error_response question_index (length plan_items))
            | Inr (plan_item, question_id, Some question0) \<Rightarrow>
                (let (refined_text, state1, w1) = refinement_check env question0 plan_item state w;
                     question = question0 \<lparr> aq_question_text := refined_text \<rparr>;
                     lang = session_language (w_session w1);
                     context = \<lparr> ctx_session_id = rq_session_id request, ctx_question = question,
                                 ctx_request = request, ctx_plan_items = plan_items,
                                 ctx_role_profile = role_profile, ctx_state = state1,
                                 ctx_persona = session_persona (w_session w1),
                                 ctx_language = lang \<rparr>
                 in Ready \<lparr> rd_followup_count = followup_count, rd_question_index = question_index,
                            rd_previous_followups = previous_followups,
                            rd_question_id = question_id, rd_question = question,
                            rd_state = state1, rd_world = w1, rd_language = lang,
                            rd_context = context \<rparr>)))"

definition finish_turn ::
  "Env \<Rightarrow> Request \<Rightarrow> PlanItem list \<Rightarrow> ReadyTurn \<Rightarrow> AgentDecision \<Rightarrow> error + (Response \<times> World)" where
  "finish_turn env request plan_items r decision =
     (let turn = create_turn env request (rd_question r) (rd_question_index r)
                   (rd_followup_count r) decision (w_turns (rd_world r));
          w2 = (rd_world r) \<lparr> w_turns := w_turns (rd_world r) @ [turn] \<rparr>
      in process_decision env decision (rd_question r) (rd_question_id r) (rd_question_index r)
           (rd_followup_count r) (rd_previous_followups r) plan_items (rd_state r)
           (rd_language r) w2)"

definition process_turn ::
  "Env \<Rightarrow> Request \<Rightarrow> PlanItem list \<Rightarrow> string \<Rightarrow> World \<Rightarrow> error + (Response \<times> World)" where
  "process_turn env request plan_items role_profile w =
     (case begin_turn env request plan_items role_profile w of
        Completed resp w' \<Rightarrow> Inr (resp, w')
      | Failed e \<Rightarrow> Inl e
      | Missing resp \<Rightarrow> Inr (resp, w)
      | Ready r \<Rightarrow> finish_turn env request plan_items r (run_reasoning env (rd_context r)))"

text \<open>The state a later call would load from the database.\<close>

definition stored :: "World \<Rightarrow> State" where
  "stored w = load_state (w_session w)"

text \<open>
  The decisions the last branch of \<open>_process_decision\<close> handles: not a follow-up with a
  text, not a hint, not an end.
\<close>

definition advances :: "AgentDecision \<Rightarrow> bool" where
  "advances decision \<longleftrightarrow>
     \<not> (action decision = ''followup'' \<and> truthy_str (d_followup_question decision))
     \<and> action decision \<noteq> ''hint'' \<and> action decision \<noteq> ''end''"

definition example_bank :: "AQuestion list" where
  "example_bank =
     [\<lparr> aq_id = ''open:1'', aq_question_text = ''Explain recursion'', aq_topics_json = [''recursion''] \<rparr>,
      \<lparr> aq_id = ''open:2'', aq_question_text = ''Explain hashing'', aq_topics_json = [''hashing''] \<rparr>]"

definition example_plan :: "PlanItem list" where
  "example_plan = [\<lparr> selected_question_id = Some ''open:1'', item_type = Some ''open'' \<rparr>]"

definition example_request :: Request where
  "example_request =
     \<lparr> rq_session_id = ''s1'', rq_user_transcript = ''my answer'', rq_user_code = None,
       rq_elapsed_seconds = None \<rparr>"

definition example_world :: World where
  "example_world =
     \<lparr> w_session = \<lparr> as_id = ''s1'', conversation_state_json = None, ended_at = None,
                     language = None, persona = None, question_start_time = None \<rparr>,
       w_turns = [], w_question_bank = example_bank, w_llm_calls = 0 \<rparr>"

text \<open>A language model that answers the first call with one text and later calls with another.\<close>

definition example_llm :: "nat \<Rightarrow> string \<Rightarrow> string \<Rightarrow> error + string option" where
  "example_llm k system prompt = Inr (Some (if k = 0 then ''Refined A'' else ''Refined B''))"

definition example_env :: "(AgentContext \<Rightarrow> error + AgentDecision) \<Rightarrow> Env" where
  "example_env reasoning =
     \<lparr> call_llm = example_llm, reasoning_run = reasoning, utcnow = 1000, uuid4 = ''t'' \<rparr>"

definition decide :: "string \<Rightarrow> string option \<Rightarrow> AgentContext \<Rightarrow> error + AgentDecision" where
  "decide a followup context =
     Inr \<lparr> action = a, message = None, d_followup_question = followup,
           satisfaction_score = 3 / 10, reasoning_trace = [] \<rparr>"

definition failing :: "AgentContext \<Rightarrow> error + AgentDecision" where
  "failing context = Inl RuntimeError"

definition example_after_first :: World where
  "example_after_first =
     snd (projr (process_turn (example_env (decide ''hint'' None)) example_request example_plan
        ''{}'' example_world))"

definition example_after_second :: World where
  "example_after_second =
     snd (projr (process_turn (example_env (decide ''hint'' None)) example_request example_plan
        ''{}'' example_after_first))"

section \<open>Properties of the similarity utility\<close>

lemma jaccard_bounds:
  assumes "finite A" "finite B"
  shows "0 \<le> compute_jaccard_similarity A B \<and> compute_jaccard_similarity A B \<le> 1"
proof -
  have "card (A \<inter> B) \<le> card (A \<union> B)"
    using assms by (intro card_mono) auto
  then show ?thesis
    by (simp add: compute_jaccard_similarity_def Let_def)
qed

text \<open>
  C9. The Jaccard similarity of two finite sets with a non-empty union is
  \<open>|A \<inter> B| / |A \<union> B|\<close>; it is 0 for two empty sets; for non-empty finite sets it
  lies in \<open>[0, 1]\<close>, and the similarity of a non-empty set with itself is 1.
\<close>

theorem jaccard_properties:
  assumes "finite A" and "finite B"
  shows "(A \<union> B \<noteq> {} \<longrightarrow>
            compute_jaccard_similarity A B = real (card (A \<inter> B)) / real (card (A \<union> B)))
       \<and> compute_jaccard_similarity ({} :: 'a set) {} = 0
       \<and> (A \<noteq> {} \<and> B \<noteq> {} \<longrightarrow>
            0 \<le> compute_jaccard_similarity A B \<and> compute_jaccard_similarity A B \<le> 1
            \<and> compute_jaccard_similarity A A = 1)"
proof -
  have a: "A \<union> B \<noteq> {} \<longrightarrow>
            compute_jaccard_similarity A B = real (card (A \<inter> B)) / real (card (A \<union> B))"
    using assms by (simp add: compute_jaccard_similarity_def Let_def card_gt_0_iff)
  have b: "compute_jaccard_similarity ({} :: 'a set) {} = 0"
    by (simp add: compute_jaccard_similarity_def)
  have c: "A \<noteq> {} \<longrightarrow> compute_jaccard_similarity A A = 1"
    using assms by (simp add: compute_jaccard_similarity_def Let_def card_gt_0_iff)
  from a b c jaccard_bounds [OF assms] show ?thesis by blast
qed

theorem jaccard_properties_witness:
  "compute_jaccard_similarity {''a'', ''b''} {''b'', ''c''} = 1 / 3
   \<and> compute_jaccard_similarity {''a'', ''b''} {''a'', ''b''} = 1"
proof -
  have i: "card ({''a'', ''b''} \<inter> {''b'', ''c''}) = 1" by simp
  have u: "card ({''a'', ''b''} \<union> {''b'', ''c''}) = 3" by (simp add: card_insert_if)
  have f: "finite {''a'', ''b''}" "finite {''b'', ''c''}" by simp_all
  have n: "{''a'', ''b''} \<union> {''b'', ''c''} \<noteq> {}"
    "{''a'', ''b''} \<noteq> {} \<and> {''b'', ''c''} \<noteq> {}" by simp_all
  note jp = jaccard_properties [OF f]
  from jp n have "compute_jaccard_similarity {''a'', ''b''} {''b'', ''c''}
      = real (card ({''a'', ''b''} \<inter> {''b'', ''c''}))
        / real (card ({''a'', ''b''} \<union> {''b'', ''c''}))"
    by blast
  moreover from jp n have "compute_jaccard_similarity {''a'', ''b''} {''a'', ''b''} = 1"
    by blast
  ultimately show ?thesis unfolding i u by simp
qed

section \<open>Properties of the readiness aggregator\<close>

lemma example_rdb_cv: "compute_cv_score example_rdb ''u'' (Some ''j'') = 80"
  by (simp add: compute_cv_score_def latest_analysis_query_def example_rdb_def order_by_desc_def)

lemma example_rdb_interview: "compute_interview_score example_rdb ''u'' (Some ''j'') = 60"
  by (simp add: compute_interview_score_def sessions_query_def example_rdb_def
      order_by_desc_def order_by_asc_def turn_overall_def turn_weight_def startswith_def)

lemma example_rdb_practice:
  "compute_practice_score example_rdb ''u'' (Some ''j'') example_now = 20"
  by (simp add: compute_practice_score_def sessions_query_def example_rdb_def
      example_now_def timedelta_days_def)

text \<open>
  C4. In every computed snapshot the readiness score is
  \<open>0.4 * cv_score + 0.5 * interview_score + 0.1 * practice_score\<close> of the three scores
  stored in the same snapshot, which are the three computed sub-scores; with the scores
  80, 60 and 20 the readiness score is 64.
\<close>

theorem readiness_weighted_sum:
  assumes "compute_readiness_snapshot db user_id job_spec_id now stamp = (snap, db')"
  shows "readiness_score snap
           = 0.4 * cv_score snap + 0.5 * interview_score snap + 0.1 * practice_score snap
       \<and> cv_score snap = compute_cv_score db user_id job_spec_id
       \<and> interview_score snap = compute_interview_score db user_id job_spec_id
       \<and> practice_score snap = compute_practice_score db user_id job_spec_id now
       \<and> (cv_score snap = 80 \<and> interview_score snap = 60 \<and> practice_score snap = 20
            \<longrightarrow> readiness_score snap = 64)"
proof -
  from assms have snap: "snap = fst (compute_readiness_snapshot db user_id job_spec_id now stamp)"
    by simp
  have rs: "readiness_score snap
      = 0.4 * cv_score snap + 0.5 * interview_score snap + 0.1 * practice_score snap"
    unfolding snap by (simp add: compute_readiness_snapshot_def Let_def)
  have parts: "cv_score snap = compute_cv_score db user_id job_spec_id"
    "interview_score snap = compute_interview_score db user_id job_spec_id"
    "practice_score snap = compute_practice_score db user_id job_spec_id now"
    unfolding snap by (simp_all add: compute_readiness_snapshot_def Let_def)
  from rs have "cv_score snap = 80 \<and> interview_score snap = 60 \<and> practice_score snap = 20
      \<longrightarrow> readiness_score snap = 64"
    by simp
  with rs parts show ?thesis by blast
qed

theorem readiness_weighted_sum_witness:
  "cv_score (fst (compute_readiness_snapshot example_rdb ''u'' (Some ''j'') example_now 0)) = 80
   \<and> interview_score (fst (compute_readiness_snapshot example_rdb ''u'' (Some ''j'') example_now 0)) = 60
   \<and> practice_score (fst (compute_readiness_snapshot example_rdb ''u'' (Some ''j'') example_now 0)) = 20
   \<and> readiness_score (fst (compute_readiness_snapshot example_rdb ''u'' (Some ''j'') example_now 0)) = 64"
proof -
  obtain snap db' where
    eq: "compute_readiness_snapshot example_rdb ''u'' (Some ''j'') example_now 0 = (snap, db')"
    by (cases "compute_readiness_snapshot example_rdb ''u'' (Some ''j'') example_now 0")
  from readiness_weighted_sum [OF eq] example_rdb_cv example_rdb_interview example_rdb_practice
  have "cv_score snap = 80 \<and> interview_score snap = 60 \<and> practice_score snap = 20
      \<and> readiness_score snap = 64"
    by simp
  then show ?thesis by (simp add: eq)
qed

text \<open>
  The claimed cv score formula fails on the code: with a match score of 0.5, no strength
  and five gaps, the code returns 45, the formula with the bonus clamped to \<open>[0, 10]\<close>
  gives 50.
\<close>

theorem cv_score_bonus_counterexample:
  "compute_cv_score example_gaps_rdb ''u'' (Some ''j'') = 45
   \<and> cv_score_as_specified (5 / 10) 0 5 = 50"
  by (simp add: compute_cv_score_def latest_analysis_query_def example_gaps_rdb_def
      order_by_desc_def cv_score_as_specified_def)

text \<open>
  C2 (amended). The cv score is 0 when no job spec is given or no analysis exists;
  otherwise it is the latest analysis's match score scaled by 100, plus the bonus
  \<open>min 10 (2 * strengths - gaps)\<close>, which is capped at 10 from above only and is negative
  when the gaps outnumber twice the strengths, the sum clamped to \<open>[0, 100]\<close>. It
  agrees with the specified formula whenever the gaps do not outnumber twice the strengths.
\<close>

theorem cv_score_formula:
  "compute_cv_score db user_id job_spec_id =
     (if \<not> truthy_str job_spec_id then 0
      else case latest_analysis_query db user_id job_spec_id of
             None \<Rightarrow> 0
           | Some a \<Rightarrow>
               max 0 (min 100 (match_score a * 100
                 + min 10 (2 * real (length (strengths_json a)) - real (length (gaps_json a))))))
   \<and> 0 \<le> compute_cv_score db user_id job_spec_id
   \<and> compute_cv_score db user_id job_spec_id \<le> 100
   \<and> (\<forall>a. truthy_str job_spec_id \<and> latest_analysis_query db user_id job_spec_id = Some a
          \<and> length (gaps_json a) \<le> 2 * length (strengths_json a)
        \<longrightarrow> compute_cv_score db user_id job_spec_id
            = cv_score_as_specified (match_score a) (length (strengths_json a))
                (length (gaps_json a)))"
proof -
  have f: "compute_cv_score db user_id job_spec_id =
     (if \<not> truthy_str job_spec_id then 0
      else case latest_analysis_query db user_id job_spec_id of
             None \<Rightarrow> 0
           | Some a \<Rightarrow>
               max 0 (min 100 (match_score a * 100
                 + min 10 (2 * real (length (strengths_json a)) - real (length (gaps_json a))))))"
    by (simp add: compute_cv_score_def Let_def mult.commute split: option.splits)
  have b: "0 \<le> compute_cv_score db user_id job_spec_id"
    "compute_cv_score db user_id job_spec_id \<le> 100"
    by (simp_all add: compute_cv_score_def Let_def split: option.splits)
  have s: "compute_cv_score db user_id job_spec_id
      = cv_score_as_specified (match_score a) (length (strengths_json a)) (length (gaps_json a))"
    if "truthy_str job_spec_id" "latest_analysis_query db user_id job_spec_id = Some a"
      "length (gaps_json a) \<le> 2 * length (strengths_json a)" for a
  proof -
    from that(3) have "0 \<le> 2 * real (length (strengths_json a)) - real (length (gaps_json a))"
      by simp
    then have "max 0 (min 10 (2 * real (length (strengths_json a)) - 1 * real (length (gaps_json a))))
        = min 10 (2 * real (length (strengths_json a)) - real (length (gaps_json a)))"
      by simp
    with that(1,2) show ?thesis
      by (simp add: f cv_score_as_specified_def)
  qed
  from f b s show ?thesis by blast
qed

theorem cv_score_formula_witness:
  "truthy_str (Some ''j'')
   \<and> latest_analysis_query example_rdb ''u'' (Some ''j'') = Some (hd (cv_analysis_results example_rdb))
   \<and> compute_cv_score example_rdb ''u'' (Some ''j'') = cv_score_as_specified (8 / 10) 0 0
   \<and> cv_score_as_specified (8 / 10) 0 0 = 80"
proof -
  have q: "latest_analysis_query example_rdb ''u'' (Some ''j'')
      = Some (hd (cv_analysis_results example_rdb))"
    by (simp add: latest_analysis_query_def example_rdb_def order_by_desc_def)
  have v: "match_score (hd (cv_analysis_results example_rdb)) = 8 / 10"
    "length (strengths_json (hd (cv_analysis_results example_rdb))) = 0"
    "length (gaps_json (hd (cv_analysis_results example_rdb))) = 0"
    by (simp_all add: example_rdb_def)
  have le: "length (gaps_json (hd (cv_analysis_results example_rdb)))
      \<le> 2 * length (strengths_json (hd (cv_analysis_results example_rdb)))"
    by (simp only: v)
  have t: "truthy_str (Some ''j'')" by simp
  from cv_score_formula [of example_rdb "''u''" "Some ''j''"] q le t
  have "compute_cv_score example_rdb ''u'' (Some ''j'')
      = cv_score_as_specified (match_score (hd (cv_analysis_results example_rdb)))
          (length (strengths_json (hd (cv_analysis_results example_rdb))))
          (length (gaps_json (hd (cv_analysis_results example_rdb))))"
    by blast
  then have "compute_cv_score example_rdb ''u'' (Some ''j'') = cv_score_as_specified (8 / 10) 0 0"
    by (simp only: v)
  moreover have "cv_score_as_specified (8 / 10) 0 0 = 80"
    by (simp add: cv_score_as_specified_def)
  ultimately show ?thesis using q by simp
qed

section \<open>Properties of the question selection\<close>

lemma bisect_le: "bisect a x hi \<le> hi"
  unfolding bisect_def
  by (rule order_trans [OF length_takeWhile_le]) simp

lemma random_choices_mem:
  assumes "random_choices u population weights = Inr c"
  shows "c \<in> set population"
proof -
  from assms have ne: "population \<noteq> []"
    by (auto simp: random_choices_def)
  have "bisect (accumulate 0 weights) (u * last (accumulate 0 weights)) (length population - 1)
          < length population"
    using bisect_le [of _ _ "length population - 1"] ne
    by (metis One_nat_def Suc_pred le_imp_less_Suc length_greater_0_conv)
  with assms ne show ?thesis
    by (auto simp: random_choices_def Let_def split: if_splits)
qed

lemma select_step_cases:
  assumes "select_step u st = Next st'"
  obtains
    (keep) chosen where "chosen \<in> set (top_candidates st)"
      and "qb_id (fst chosen) \<notin> used_ids st"
      and "st' = \<lparr> selected = selected st @ [fst chosen],
                    used_ids = insert (qb_id (fst chosen)) (used_ids st),
                    top_candidates = top_candidates st \<rparr>"
      and "selected st \<noteq> [] \<Longrightarrow>
           compute_jaccard_similarity (topics_union (selected st)) (set (qb_topics (fst chosen))) > 8 / 10
           \<Longrightarrow> \<forall>sq \<in> set (top_candidates st). qb_id (fst sq) \<notin> used_ids st \<longrightarrow> sq = chosen"
  | (discard) chosen where "chosen \<in> set (top_candidates st)"
      and "qb_id (fst chosen) \<notin> used_ids st"
      and "st' = \<lparr> selected = selected st, used_ids = used_ids st,
                    top_candidates = remove1 chosen (top_candidates st) \<rparr>"
      and "selected st \<noteq> []"
      and "compute_jaccard_similarity (topics_union (selected st)) (set (qb_topics (fst chosen))) > 8 / 10"
proof -
  let ?rem = "filter (\<lambda>sq. qb_id (fst sq) \<notin> used_ids st) (top_candidates st)"
  let ?J = "\<lambda>c. compute_jaccard_similarity (topics_union (selected st)) (set (qb_topics (fst c)))"
  from assms obtain chosen where
    ch: "random_choices u ?rem (map (\<lambda>sq. (snd sq)\<^sup>2) ?rem) = Inr chosen"
    by (auto simp: select_step_def Let_def split: if_splits sum.splits)
  from random_choices_mem [OF ch] have mem: "chosen \<in> set (top_candidates st)"
    and fresh: "qb_id (fst chosen) \<notin> used_ids st"
    by simp_all
  from fresh have minus: "insert (qb_id (fst chosen)) (used_ids st) - {qb_id (fst chosen)} = used_ids st"
    by auto
  show thesis
  proof (cases "selected st \<noteq> [] \<and> ?J chosen > 8 / 10 \<and> length ?rem > 1")
    case True
    with assms ch have eq: "st' = \<lparr> selected = selected st, used_ids = used_ids st,
                    top_candidates = remove1 chosen (top_candidates st) \<rparr>"
      by (auto simp: select_step_def Let_def minus split: if_splits)
    from True have ne: "selected st \<noteq> []" and hi: "?J chosen > 8 / 10" by simp_all
    show thesis by (rule discard [OF mem fresh eq ne hi])
  next
    case False
    with assms ch have st': "st' = \<lparr> selected = selected st @ [fst chosen],
                    used_ids = insert (qb_id (fst chosen)) (used_ids st),
                    top_candidates = top_candidates st \<rparr>"
      by (auto simp: select_step_def Let_def split: if_splits)
    have only: "\<forall>sq \<in> set (top_candidates st). qb_id (fst sq) \<notin> used_ids st \<longrightarrow> sq = chosen"
      if "selected st \<noteq> []" "?J chosen > 8 / 10"
    proof -
      from that False have "length ?rem \<le> 1" by auto
      moreover from random_choices_mem [OF ch] have "chosen \<in> set ?rem" .
      ultimately have "?rem = [chosen]"
        by (cases ?rem) auto
      then have "set ?rem = {chosen}" by simp
      then show ?thesis by auto
    qed
    show thesis by (rule keep [OF mem fresh st' only])
  qed
qed

lemma select_loop_preserves:
  assumes "\<And>u s s'. P s \<Longrightarrow> int (length (selected s)) < n \<Longrightarrow> select_step u s = Next s' \<Longrightarrow> P s'"
    and "P st"
    and "select_loop rng n k st = Inr st'"
  shows "P st'"
  using assms
proof (induction rng n k st rule: select_loop.induct)
  case (1 rng num_questions k st)
  note step = "1.prems"(1)
  show ?case
  proof (cases "int (length (selected st)) < num_questions \<and> top_candidates st \<noteq> []")
    case False
    with "1.prems"(2,3) show ?thesis by (simp add: select_loop.simps)
  next
    case True
    show ?thesis
    proof (cases "select_step (rng k) st")
      case Break
      with True "1.prems"(2,3) show ?thesis by (simp add: select_loop.simps)
    next
      case (Raise e)
      with True "1.prems"(2,3) show ?thesis by (simp add: select_loop.simps)
    next
      case (Next s')
      with True "1.prems"(3) have run: "select_loop rng num_questions (Suc k) s' = Inr st'"
        by (simp add: select_loop.simps)
      from True have lt: "int (length (selected st)) < num_questions" by simp
      from step [OF "1.prems"(2) lt Next] have "P s'" .
      from "1.IH" [OF True Next step this run] show ?thesis .
    qed
  qed
qed


lemma py_slice_to_id: "length xs \<le> nat k \<Longrightarrow> py_slice_to k xs = xs"
  by (auto simp: py_slice_to_def)


lemma step_ids:
  assumes "used_ids s = qb_id ` set (selected s) \<and> distinct (map qb_id (selected s))"
    and "select_step u s = Next s'"
  shows "used_ids s' = qb_id ` set (selected s') \<and> distinct (map qb_id (selected s'))"
  using assms(2)
proof (cases rule: select_step_cases)
  case (keep chosen)
  with assms(1) show ?thesis by auto
next
  case (discard chosen)
  with assms(1) show ?thesis by simp
qed

lemma step_pool:
  assumes "set (selected s) \<subseteq> fst ` set pool \<and> set (top_candidates s) \<subseteq> set pool"
    and "select_step u s = Next s'"
  shows "set (selected s') \<subseteq> fst ` set pool \<and> set (top_candidates s') \<subseteq> set pool"
  using assms(2)
proof (cases rule: select_step_cases)
  case (keep chosen)
  with assms(1) show ?thesis by auto
next
  case (discard chosen)
  have "set (remove1 chosen (top_candidates s)) \<subseteq> set (top_candidates s)"
    by (rule set_remove1_subset)
  with discard assms(1) show ?thesis by auto
qed

lemma step_length:
  assumes "length (selected s) \<le> nat n"
    and "int (length (selected s)) < n"
    and "select_step u s = Next s'"
  shows "length (selected s') \<le> nat n"
  using assms(3)
proof (cases rule: select_step_cases)
  case (keep chosen)
  with assms(2) show ?thesis by simp
next
  case (discard chosen)
  with assms(1) show ?thesis by simp
qed

lemma overlap_at_append:
  "i < length qs \<Longrightarrow> overlap_at (qs @ [q]) i = overlap_at qs i"
  by (simp add: overlap_at_def nth_append)

lemma overlap_at_last:
  "overlap_at (qs @ [q]) (length qs)
     = compute_jaccard_similarity (topics_union qs) (set (qb_topics q))"
  by (simp add: overlap_at_def)

lemma step_diverse:
  assumes inv: "diverse s"
    and ids: "distinct (map qb_id (selected s))"
    and step: "select_step u s = Next s'"
  shows "diverse s'"
  using step
proof (cases rule: select_step_cases)
  case (discard chosen)
  have sub: "set (remove1 chosen (top_candidates s)) \<subseteq> set (top_candidates s)"
    by (rule set_remove1_subset)
  from inv have "\<forall>sq \<in> set (top_candidates s). qb_id (fst sq) \<in> used_ids s"
    if "1 < length (selected s)" "overlap_at (selected s) (length (selected s) - 1) > 8 / 10"
    using that unfolding diverse_def by blast
  with sub have "\<forall>sq \<in> set (remove1 chosen (top_candidates s)). qb_id (fst sq) \<in> used_ids s"
    if "1 < length (selected s)" "overlap_at (selected s) (length (selected s) - 1) > 8 / 10"
    using that by blast
  with inv discard(3) show ?thesis
    unfolding diverse_def by simp
next
  case (keep chosen)
  let ?qs = "selected s"
  from inv have used: "used_ids s = qb_id ` set ?qs" by (simp add: diverse_def)
  have inner: "overlap_at (?qs @ [fst chosen]) i \<le> 8 / 10"
    if "0 < i" "Suc i < length (?qs @ [fst chosen])" for i
  proof -
    from that have lt: "i < length ?qs" by simp
    show ?thesis
    proof (cases "Suc i < length ?qs")
      case True
      with inv that(1) have "overlap_at ?qs i \<le> 8 / 10" unfolding diverse_def by blast
      with lt show ?thesis by (simp add: overlap_at_append)
    next
      case False
      with lt have i: "i = length ?qs - 1" by simp
      show ?thesis
      proof (rule ccontr)
        assume "\<not> overlap_at (?qs @ [fst chosen]) i \<le> 8 / 10"
        with lt have "overlap_at ?qs (length ?qs - 1) > 8 / 10"
          by (simp add: overlap_at_append i)
        moreover from that(1) i have "1 < length ?qs" by simp
        ultimately have "\<forall>sq \<in> set (top_candidates s). qb_id (fst sq) \<in> used_ids s"
          using inv unfolding diverse_def by blast
        with keep(1,2) show False by blast
      qed
    qed
  qed
  have final: "\<forall>sq \<in> set (top_candidates s). qb_id (fst sq) \<in> insert (qb_id (fst chosen)) (used_ids s)"
    if "1 < length (?qs @ [fst chosen])"
      "overlap_at (?qs @ [fst chosen]) (length (?qs @ [fst chosen]) - 1) > 8 / 10"
  proof -
    from that(1) have ne: "?qs \<noteq> []" by auto
    from that(2) have "compute_jaccard_similarity (topics_union ?qs) (set (qb_topics (fst chosen))) > 8 / 10"
      by (simp add: overlap_at_last)
    from keep(4) [OF ne this] show ?thesis by auto
  qed
  from used inner final keep(3) show ?thesis
    by (simp add: diverse_def)
qed

lemma loop_inv_initial:
  "loop_inv pool n \<lparr> selected = [], used_ids = {}, top_candidates = pool \<rparr>"
  by (simp add: loop_inv_def diverse_def)

lemma loop_inv_step:
  assumes "loop_inv pool n s" and "int (length (selected s)) < n" and "select_step u s = Next s'"
  shows "loop_inv pool n s'"
proof -
  from assms(1) have a: "used_ids s = qb_id ` set (selected s) \<and> distinct (map qb_id (selected s))"
    and b: "set (selected s) \<subseteq> fst ` set pool \<and> set (top_candidates s) \<subseteq> set pool"
    and c: "length (selected s) \<le> nat n"
    and d: "diverse s"
    by (simp_all add: loop_inv_def)
  from a have dist: "distinct (map qb_id (selected s))" by simp
  from step_ids [OF a assms(3)] step_pool [OF b assms(3)] step_length [OF c assms(2,3)]
    step_diverse [OF d dist assms(3)]
  show ?thesis unfolding loop_inv_def by blast
qed

lemma select_loop_inv:
  assumes "select_loop rng n 0 \<lparr> selected = [], used_ids = {}, top_candidates = pool \<rparr> = Inr st"
  shows "loop_inv pool n st"
  by (rule select_loop_preserves [where P = "loop_inv pool n", OF loop_inv_step loop_inv_initial assms])

lemma select_questions_cases:
  assumes "select_questions db rng tw qt n uid jd excl diff = Inr qs"
  obtains (none) "candidates_query db qt diff = []" and "qs = []"
  | (run) st where "candidates_query db qt diff \<noteq> []"
      and "select_loop rng n 0 (initial_state db tw qt n uid jd excl diff) = Inr st"
      and "qs = selected st"
      and "loop_inv (top_candidates (initial_state db tw qt n uid jd excl diff)) n st"
proof (cases "candidates_query db qt diff = []")
  case True
  with assms have "qs = []" by (simp add: select_questions_def)
  with True show thesis by (rule none)
next
  case False
  with assms obtain st where
    st: "select_loop rng n 0 (initial_state db tw qt n uid jd excl diff) = Inr st"
    and qs: "qs = py_slice_to n (selected st)"
    by (auto simp: select_questions_def initial_state_def Let_def split: sum.splits)
  from st have inv: "loop_inv (top_candidates (initial_state db tw qt n uid jd excl diff)) n st"
    by (intro select_loop_inv) (simp add: initial_state_def)
  then have "length (selected st) \<le> nat n" by (simp add: loop_inv_def)
  with qs have "qs = selected st" by (simp add: py_slice_to_id)
  from False st this inv show thesis by (rule run)
qed

lemma example_recent: "get_recent_question_ids example_sdb 7 ''h'' MAX_RECENT_SESSIONS = {6}"
  by (simp add: get_recent_question_ids_def example_sdb_def order_by_desc_def MAX_RECENT_SESSIONS_def)

lemma example_candidates: "candidates_query example_sdb OPEN None = question_bank example_sdb"
  by (simp add: candidates_query_def example_sdb_def mk_question_def)

lemma example_filtered:
  "filter (\<lambda>q. qb_id q \<notin> excluded_ids example_sdb 7 ''h'' None) (candidates_query example_sdb OPEN None)
     = [mk_question 1 [''a''], mk_question 2 [''b''], mk_question 3 [''a''],
        mk_question 4 [''c''], mk_question 5 [''d'']]"
  by (simp add: example_candidates excluded_ids_def example_recent)
     (simp add: example_sdb_def mk_question_def)

lemma example_score:
  "compute_match_score (mk_question i [''a'']) example_weights = 1"
  "compute_match_score (mk_question i [''b'']) example_weights = 1"
  "compute_match_score (mk_question i [''c'']) example_weights = 1"
  "compute_match_score (mk_question i [''d'']) example_weights = 1"
  "compute_match_score (mk_question i [''a'', ''b'']) example_weights = 1"
  by (simp_all add: compute_match_score_def topic_score_def lower_def lower_char_def
      example_weights_def mk_question_def)

lemma example_pool:
  "top_candidates (initial_state example_sdb example_weights OPEN 3 7 ''h'' None None)
     = [(mk_question 1 [''a''], 1), (mk_question 2 [''b''], 1), (mk_question 3 [''a''], 1),
        (mk_question 4 [''c''], 1), (mk_question 5 [''d''], 1)]"
  by (simp add: initial_state_def filtered_candidates_def example_filtered sampling_pool_def
      example_score py_slice_to_def)

lemma example_step1:
  "select_step 0 \<lparr> selected = [], used_ids = {},
       top_candidates = [(mk_question 1 [''a''], 1), (mk_question 2 [''b''], 1), (mk_question 3 [''a''], 1),
        (mk_question 4 [''c''], 1), (mk_question 5 [''d''], 1)] \<rparr>
   = Next \<lparr> selected = [mk_question 1 [''a'']], used_ids = {1},
       top_candidates = [(mk_question 1 [''a''], 1), (mk_question 2 [''b''], 1), (mk_question 3 [''a''], 1),
        (mk_question 4 [''c''], 1), (mk_question 5 [''d''], 1)] \<rparr>"
  by (simp add: select_step_def random_choices_def bisect_def mk_question_def)

lemma example_step2:
  "select_step 0 \<lparr> selected = [mk_question 1 [''a'']], used_ids = {1},
       top_candidates = [(mk_question 1 [''a''], 1), (mk_question 2 [''b''], 1), (mk_question 3 [''a''], 1),
        (mk_question 4 [''c''], 1), (mk_question 5 [''d''], 1)] \<rparr>
   = Next \<lparr> selected = [mk_question 1 [''a''], mk_question 2 [''b'']], used_ids = {2, 1},
       top_candidates = [(mk_question 1 [''a''], 1), (mk_question 2 [''b''], 1), (mk_question 3 [''a''], 1),
        (mk_question 4 [''c''], 1), (mk_question 5 [''d''], 1)] \<rparr>"
  by (simp add: select_step_def random_choices_def bisect_def mk_question_def topics_union_def
      compute_jaccard_similarity_def)

lemma example_step3:
  "select_step 0 \<lparr> selected = [mk_question 1 [''a''], mk_question 2 [''b'']], used_ids = {2, 1},
       top_candidates = [(mk_question 1 [''a''], 1), (mk_question 2 [''b''], 1), (mk_question 3 [''a''], 1),
        (mk_question 4 [''c''], 1), (mk_question 5 [''d''], 1)] \<rparr>
   = Next \<lparr> selected = [mk_question 1 [''a''], mk_question 2 [''b''], mk_question 3 [''a'']],
       used_ids = {3, 2, 1},
       top_candidates = [(mk_question 1 [''a''], 1), (mk_question 2 [''b''], 1), (mk_question 3 [''a''], 1),
        (mk_question 4 [''c''], 1), (mk_question 5 [''d''], 1)] \<rparr>"
  by (simp add: select_step_def random_choices_def bisect_def mk_question_def topics_union_def
      compute_jaccard_similarity_def card_insert_if)

lemma example_run:
  "select_questions example_sdb zero_rng example_weights OPEN 3 7 ''h'' None None
     = Inr [mk_question 1 [''a''], mk_question 2 [''b''], mk_question 3 [''a'']]"
proof -
  have "select_loop zero_rng 3 0 (initial_state example_sdb example_weights OPEN 3 7 ''h'' None None)
      = Inr \<lparr> selected = [mk_question 1 [''a''], mk_question 2 [''b''], mk_question 3 [''a'']],
       used_ids = {3, 2, 1},
       top_candidates = [(mk_question 1 [''a''], 1), (mk_question 2 [''b''], 1), (mk_question 3 [''a''], 1),
        (mk_question 4 [''c''], 1), (mk_question 5 [''d''], 1)] \<rparr>"
    using example_pool
    apply (simp add: initial_state_def)
    apply (subst select_loop.simps, simp add: zero_rng_def example_step1)
    apply (subst select_loop.simps, simp add: zero_rng_def example_step2)
    apply (subst select_loop.simps, simp add: zero_rng_def example_step3)
    apply (subst select_loop.simps, simp)
    done
  then show ?thesis
    using example_candidates
    by (simp add: select_questions_def initial_state_def py_slice_to_def example_sdb_def)
qed



























text \<open>
  C10. A returned list has at most \<open>num_questions\<close> questions (it is empty for a negative
  \<open>num_questions\<close>) with pairwise distinct ids, and when no candidate of the requested
  type and difficulty exists the function returns the empty list and raises nothing.
\<close>

theorem select_questions_bounded_distinct:
  "(\<forall>qs. select_questions db rng tw qt n uid jd excl diff = Inr qs \<longrightarrow>
        (0 \<le> n \<longrightarrow> int (length qs) \<le> n) \<and> (n < 0 \<longrightarrow> qs = [])
        \<and> distinct (map qb_id qs))
   \<and> (candidates_query db qt diff = [] \<longrightarrow>
        select_questions db rng tw qt n uid jd excl diff = Inr [])"
proof -
  have a: "(0 \<le> n \<longrightarrow> int (length qs) \<le> n) \<and> (n < 0 \<longrightarrow> qs = []) \<and> distinct (map qb_id qs)"
    if "select_questions db rng tw qt n uid jd excl diff = Inr qs" for qs
    using that
  proof (cases rule: select_questions_cases)
    case none
    then show ?thesis by simp
  next
    case (run st)
    from run(4) have "length qs \<le> nat n" and "distinct (map qb_id qs)"
      by (simp_all add: loop_inv_def run(3))
    then show ?thesis by auto
  qed
  have b: "candidates_query db qt diff = [] \<longrightarrow>
        select_questions db rng tw qt n uid jd excl diff = Inr []"
    by (simp add: select_questions_def)
  from a b show ?thesis by blast
qed

theorem select_questions_bounded_distinct_witness:
  "select_questions example_sdb zero_rng example_weights OPEN 3 7 ''h'' None None
     = Inr [mk_question 1 [''a''], mk_question 2 [''b''], mk_question 3 [''a'']]
   \<and> int (length [mk_question 1 [''a''], mk_question 2 [''b''], mk_question 3 [''a'']]) \<le> 3
   \<and> distinct (map qb_id [mk_question 1 [''a''], mk_question 2 [''b''], mk_question 3 [''a'']])
   \<and> candidates_query example_sdb CODE None = []
   \<and> select_questions example_sdb zero_rng example_weights CODE 3 7 ''h'' None None = Inr []"
proof -
  have e: "candidates_query example_sdb CODE None = []"
    by (simp add: candidates_query_def example_sdb_def mk_question_def)
  note t1 = select_questions_bounded_distinct
    [of example_sdb zero_rng example_weights OPEN 3 7 "''h''" None None]
  note t2 = select_questions_bounded_distinct
    [of example_sdb zero_rng example_weights CODE 3 7 "''h''" None None]
  from t1 example_run
  have "int (length [mk_question 1 [''a''], mk_question 2 [''b''], mk_question 3 [''a'']]) \<le> 3
      \<and> distinct (map qb_id [mk_question 1 [''a''], mk_question 2 [''b''], mk_question 3 [''a'']])"
    by (metis (no_types, lifting) zero_le_numeral)
  moreover from t2 e
  have "select_questions example_sdb zero_rng example_weights CODE 3 7 ''h'' None None = Inr []"
    by blast
  ultimately show ?thesis using example_run e by blast
qed

section \<open>Properties of the turn state machine\<close>

lemma load_state_refined [simp]: "s_refined_q (load_state s) = Map.empty"
  by (simp add: load_state_def Let_def)

lemma stored_save_state:
  "s_followup_count (stored (save_state w st)) = s_followup_count st"
  "s_question_index (stored (save_state w st)) = s_question_index st"
  "s_previous_followups (stored (save_state w st)) = s_previous_followups st"
  "s_initial_answer_score (stored (save_state w st)) = s_initial_answer_score st"
  "s_current_question_id (stored (save_state w st)) = s_current_question_id st"
  by (simp_all add: stored_def save_state_def load_state_def)

lemma save_state_other:
  "ended_at (w_session (save_state w st)) = ended_at (w_session w)"
  "w_turns (save_state w st) = w_turns w"
  "w_question_bank (save_state w st) = w_question_bank w"
  "w_llm_calls (save_state w st) = w_llm_calls w"
  "language (w_session (save_state w st)) = language (w_session w)"
  by (simp_all add: save_state_def)

lemma refinement_check_loaded:
  assumes "refinement_check env q item (load_state (w_session w)) w = (t, st1, w1)"
  shows "st1 = (load_state (w_session w)) \<lparr> s_refined_q := [s_question_index (load_state (w_session w)) \<mapsto> t] \<rparr>"
    and "w1 = save_state (w \<lparr> w_llm_calls := w_llm_calls w1 \<rparr>) st1"
    and "w_llm_calls w1 > w_llm_calls w"
proof -
  obtain t' c where r: "refine_and_translate env (w_llm_calls w) (aq_question_text q) (get_type item)
      (session_language (w_session w)) = (t', c)"
    by (cases "refine_and_translate env (w_llm_calls w) (aq_question_text q) (get_type item)
      (session_language (w_session w))")
  have "c > w_llm_calls w"
    using r by (auto simp: refine_and_translate_def english_refine_def split: if_splits sum.splits)
  with assms r show "st1 = (load_state (w_session w)) \<lparr> s_refined_q := [s_question_index (load_state (w_session w)) \<mapsto> t] \<rparr>"
    and "w1 = save_state (w \<lparr> w_llm_calls := w_llm_calls w1 \<rparr>) st1"
    and "w_llm_calls w1 > w_llm_calls w"
    by (auto simp: refinement_check_def Let_def save_state_def)
qed

lemma py_getitem_ok:
  assumes "- int (length xs) \<le> i" and "i < int (length xs)"
  shows "\<exists>x. py_getitem xs i = Inr x"
  using assms by (auto simp: py_getitem_def Let_def)

lemma py_getitem_Inr_range:
  assumes "py_getitem xs i = Inr x"
  shows "- int (length xs) \<le> i"
  using assms by (auto simp: py_getitem_def Let_def split: if_splits)

lemma get_next_question_data_returns:
  assumes "- int (length plan_items) \<le> next_index"
  shows "\<exists>nq st2 w2. get_next_question_data env next_index plan_items lang st w = Inr (nq, st2, w2)"
proof (cases "next_index \<ge> int (length plan_items)")
  case True
  then show ?thesis by (simp add: get_next_question_data_def)
next
  case False
  with assms obtain item where "py_getitem plan_items next_index = Inr item"
    using py_getitem_ok [of plan_items next_index] by auto
  with False show ?thesis
    by (auto simp: get_next_question_data_def Let_def split: option.splits prod.splits)
qed

lemma get_next_question_data_keeps:
  assumes "get_next_question_data env next_index plan_items lang st (save_state w0 st) = Inr (nq, st2, w2)"
  shows "s_followup_count (stored w2) = s_followup_count st"
    and "s_question_index (stored w2) = s_question_index st"
    and "s_previous_followups (stored w2) = s_previous_followups st"
    and "w_turns w2 = w_turns w0"
    and "ended_at (w_session w2) = ended_at (w_session w0)"
  using assms
  by (auto simp: get_next_question_data_def Let_def stored_def save_state_def load_state_def
      split: if_splits sum.splits option.splits prod.splits)

lemma process_decision_followup:
  assumes "action d = ''followup''" and "truthy_str (d_followup_question d)"
  shows "\<exists>resp. process_decision env d q qid qi fc pf plan_items st lang w
      = Inr (resp, save_state w (st \<lparr> s_current_question_id := qid, s_followup_count := fc + 1,
                s_initial_answer_score := satisfaction_score d,
                s_previous_followups := pf @ [the (d_followup_question d)] \<rparr>))"
  using assms by (simp add: process_decision_def Let_def)

lemma process_decision_advance:
  assumes adv: "advances d"
    and range: "- int (length plan_items) \<le> qi"
  shows "\<exists>resp w'. process_decision env d q qid qi fc pf plan_items st lang w = Inr (resp, w')
      \<and> r_is_done resp = (qi + 1 \<ge> int (length plan_items))
      \<and> r_agent_decision resp = Some (action d)
      \<and> r_agent_confidence resp = Some (satisfaction_score d)
      \<and> s_question_index (stored w') = qi + 1
      \<and> s_followup_count (stored w') = 0
      \<and> s_previous_followups (stored w') = []
      \<and> ended_at (w_session w') = ended_at (w_session w)
      \<and> w_turns w' = w_turns w"
proof -
  let ?st1 = "st \<lparr> s_question_index := qi + 1, s_followup_count := 0, s_previous_followups := [] \<rparr>"
  from range have "- int (length plan_items) \<le> qi + 1" by simp
  from get_next_question_data_returns [OF this]
  obtain nq st2 w2 where
    nx: "get_next_question_data env (qi + 1) plan_items lang ?st1 (save_state w ?st1) = Inr (nq, st2, w2)"
    by blast
  note k = get_next_question_data_keeps [OF nx]
  from adv have branch: "(action d = ''followup'' \<and> truthy_str (d_followup_question d)) = False"
    "(action d = ''hint'') = False" "(action d = ''end'') = False"
    by (simp_all add: advances_def)
  let ?w3 = "w2 \<lparr> w_session := (w_session w2) \<lparr> question_start_time := Some (utcnow env) \<rparr> \<rparr>"
  have w3: "stored ?w3 = stored w2" "ended_at (w_session ?w3) = ended_at (w_session w2)"
    "w_turns ?w3 = w_turns w2"
    by (simp_all add: stored_def load_state_def)
  have "process_decision env d q qid qi fc pf plan_items st lang w
      = Inr (\<lparr> r_interviewer_message = advance_message d (nq \<noteq> None) lang,
                 r_followup_question = None, r_next_question = nq,
                 r_is_done = (qi + 1 \<ge> int (length plan_items)),
                 r_progress_turn_index = qi + 1, r_progress_total = length plan_items,
                 r_agent_decision = Some (action d),
                 r_agent_confidence = Some (satisfaction_score d) \<rparr>, ?w3)"
    unfolding process_decision_def by (simp only: branch if_False Let_def nx sum.case prod.case)
  with k w3 show ?thesis by simp
qed

lemma begin_turn_Ready:
  assumes "begin_turn env request plan_items role_profile w = Ready r"
  shows "rd_followup_count r = s_followup_count (stored w)"
    and "rd_question_index r = s_question_index (stored w)"
    and "rd_previous_followups r = s_previous_followups (stored w)"
    and "s_followup_count (rd_state r) = s_followup_count (stored w)"
    and "s_question_index (rd_state r) = s_question_index (stored w)"
    and "s_previous_followups (rd_state r) = s_previous_followups (stored w)"
    and "- int (length plan_items) \<le> s_question_index (stored w)"
    and "w_turns (rd_world r) = w_turns w"
    and "ended_at (w_session (rd_world r)) = ended_at (w_session w)"
    and "w_llm_calls (rd_world r) > w_llm_calls w"
proof -
  let ?st = "load_state (w_session w)"
  from assms obtain item qid q0 where
    cq: "current_question ?st plan_items (w_question_bank w) = Inr (item, qid, Some q0)"
    by (auto simp: begin_turn_def Let_def split: if_splits sum.splits option.splits prod.splits)
  obtain t st1 w1 where rc: "refinement_check env q0 item ?st w = (t, st1, w1)"
    by (cases "refinement_check env q0 item ?st w") auto
  note rl = refinement_check_loaded [OF rc]
  from assms cq rc have r: "rd_followup_count r = s_followup_count ?st"
    "rd_question_index r = s_question_index ?st"
    "rd_previous_followups r = s_previous_followups ?st"
    "rd_state r = st1" "rd_world r = w1"
    by (auto simp: begin_turn_def Let_def split: if_splits)
  from cq have range: "- int (length plan_items) \<le> s_question_index ?st"
    by (auto simp: current_question_def Let_def split: if_splits sum.splits dest: py_getitem_Inr_range)
  from r(1-3) show "rd_followup_count r = s_followup_count (stored w)"
    "rd_question_index r = s_question_index (stored w)"
    "rd_previous_followups r = s_previous_followups (stored w)"
    by (simp_all add: stored_def)
  from r(4) rl(1) show "s_followup_count (rd_state r) = s_followup_count (stored w)"
    "s_question_index (rd_state r) = s_question_index (stored w)"
    "s_previous_followups (rd_state r) = s_previous_followups (stored w)"
    by (simp_all add: stored_def)
  from range show "- int (length plan_items) \<le> s_question_index (stored w)"
    by (simp add: stored_def)
  have "w_turns w1 = w_turns w" "ended_at (w_session w1) = ended_at (w_session w)"
    by (subst rl(2), simp add: save_state_other)+
  with r(5) show "w_turns (rd_world r) = w_turns w"
    "ended_at (w_session (rd_world r)) = ended_at (w_session w)"
    by simp_all
  from r(5) rl(3) show "w_llm_calls (rd_world r) > w_llm_calls w" by simp
qed

lemma process_turn_Ready:
  assumes "begin_turn env request plan_items role_profile w = Ready r"
  shows "process_turn env request plan_items role_profile w
      = finish_turn env request plan_items r (run_reasoning env (rd_context r))"
  using assms by (simp add: process_turn_def)

lemma finish_turn_advance:
  assumes ready: "begin_turn env request plan_items role_profile w = Ready r"
    and adv: "advances d"
  shows "\<exists>resp w'. finish_turn env request plan_items r d = Inr (resp, w')
      \<and> r_is_done resp = (s_question_index (stored w) + 1 \<ge> int (length plan_items))
      \<and> r_agent_decision resp = Some (action d)
      \<and> r_agent_confidence resp = Some (satisfaction_score d)
      \<and> s_question_index (stored w') = s_question_index (stored w) + 1
      \<and> s_followup_count (stored w') = 0
      \<and> s_previous_followups (stored w') = []
      \<and> ended_at (w_session w') = ended_at (w_session w)
      \<and> length (w_turns w') = length (w_turns w) + 1
      \<and> at_score_overall (last (w_turns w')) = satisfaction_score d
      \<and> at_agent_analysis_json (last (w_turns w')) = d"
proof -
  note b = begin_turn_Ready [OF ready]
  let ?turn = "create_turn env request (rd_question r) (rd_question_index r)
                   (rd_followup_count r) d (w_turns (rd_world r))"
  let ?w2 = "(rd_world r) \<lparr> w_turns := w_turns (rd_world r) @ [?turn] \<rparr>"
  from b(7) have range: "- int (length plan_items) \<le> rd_question_index r"
    by (simp add: b(2))
  from process_decision_advance [OF adv range, of env "rd_question r" "rd_question_id r"
      "rd_followup_count r" "rd_previous_followups r" "rd_state r" "rd_language r" ?w2]
  obtain resp w' where
    pd: "process_decision env d (rd_question r) (rd_question_id r) (rd_question_index r)
           (rd_followup_count r) (rd_previous_followups r) plan_items (rd_state r)
           (rd_language r) ?w2 = Inr (resp, w')"
    and res: "r_is_done resp = (rd_question_index r + 1 \<ge> int (length plan_items))"
      "r_agent_decision resp = Some (action d)"
      "r_agent_confidence resp = Some (satisfaction_score d)"
      "s_question_index (stored w') = rd_question_index r + 1"
      "s_followup_count (stored w') = 0"
      "s_previous_followups (stored w') = []"
      "ended_at (w_session w') = ended_at (w_session ?w2)"
      "w_turns w' = w_turns ?w2"
    by blast
  have ft: "finish_turn env request plan_items r d = Inr (resp, w')"
    using pd by (simp add: finish_turn_def Let_def)
  have sc: "at_score_overall ?turn = satisfaction_score d" "at_agent_analysis_json ?turn = d"
    by (simp_all add: create_turn_def)
  from ft res b(2,8,9) sc show ?thesis by simp
qed

lemma example_stored:
  "s_followup_count (stored example_world) = 0"
  "s_question_index (stored example_world) = 0"
  "s_previous_followups (stored example_world) = []"
  by (simp_all add: stored_def load_state_def example_world_def empty_stored_def)

lemma example_refine:
  "refine_and_translate (example_env rs) 0 ''Explain recursion'' ''open'' ''english''
     = (''Refined A'', 1)"
  by (simp add: refine_and_translate_def english_refine_def example_env_def example_llm_def
      usable_def strip_def is_space_def lower_def lower_char_def)

lemma example_ready:
  "\<exists>r. begin_turn (example_env rs) example_request example_plan ''{}'' example_world = Ready r"
  by (simp add: begin_turn_def load_state_def example_world_def empty_stored_def example_plan_def
      current_question_def py_getitem_def session_get_def example_bank_def Let_def
      split: prod.splits)

lemmas agent_defs =
  process_turn_def begin_turn_def finish_turn_def run_reasoning_def load_state_def save_state_def
  empty_stored_def current_question_def py_getitem_def session_get_def refinement_check_def
  refine_and_translate_def english_refine_def usable_def strip_def is_space_def lower_def
  lower_char_def session_language_def session_persona_def create_turn_def get_last_main_turn_def
  order_by_desc_def process_decision_def get_type_def
  example_env_def example_llm_def example_plan_def example_bank_def example_request_def decide_def

lemma example_after_first_eq:
  "example_after_first =
     \<lparr> w_session = \<lparr> as_id = ''s1'',
         conversation_state_json = Some
           \<lparr> cs_current_question_id = None, cs_followup_count = Some 0, cs_question_index = Some 0,
             cs_initial_answer_score = Some 0, cs_previous_followups = Some [],
             cs_refined_q = [0 \<mapsto> ''Refined A''] \<rparr>,
         ended_at = None, language = None, persona = None, question_start_time = None \<rparr>,
       w_turns =
         [\<lparr> at_id = ''t'', at_session_id = ''s1'', at_turn_index = 0, at_question_id = ''open:1'',
            at_question_snapshot = ''Refined A'', at_user_transcript = ''my answer'',
            at_user_code = None, at_score_overall = 3 / 10, at_topics_json = [''recursion''],
            at_parent_turn_id = None, at_question_number = 0, at_is_followup = False,
            at_time_spent_seconds = 0,
            at_agent_analysis_json =
              \<lparr> action = ''hint'', message = None, d_followup_question = None,
                satisfaction_score = 3 / 10, reasoning_trace = [] \<rparr> \<rparr>],
       w_question_bank = example_bank, w_llm_calls = 1 \<rparr>"
  unfolding example_after_first_def example_world_def
  by (simp add: agent_defs Let_def)

lemma example_after_second_facts:
  "map at_question_snapshot (w_turns example_after_second) = [''Refined A'', ''Refined B'']"
  "w_llm_calls example_after_second = 2"
  unfolding example_after_second_def example_after_first_eq
  by (simp_all add: agent_defs Let_def)

lemma complete_turn:
  assumes "s_followup_count (stored w) = 0"
    and "s_question_index (stored w) \<ge> int (length plan_items)"
  shows "process_turn env request plan_items role_profile w
      = Inr (complete_response (s_question_index (stored w)) (length plan_items),
             w \<lparr> w_session := (w_session w) \<lparr> ended_at := Some (utcnow env) \<rparr> \<rparr>)"
  using assms by (simp add: process_turn_def begin_turn_def stored_def Let_def)

text \<open>
  The claim that completion is not signalled upon advancing fails on the code. On a
  one-item plan, the call that advances from question 0 past the last plan item returns
  \<open>is_done = True\<close> in its own response, while the end time of the session stays unset.
\<close>

theorem advance_reports_done_counterexample:
  "s_question_index (stored example_world) = 0
   \<and> s_followup_count (stored example_world) = 0
   \<and> int (length example_plan) = 1
   \<and> at_agent_analysis_json (last (w_turns (snd (projr (process_turn
        (example_env (decide ''advance'' None)) example_request example_plan ''{}'' example_world)))))
       = \<lparr> action = ''advance'', message = None, d_followup_question = None,
           satisfaction_score = 3 / 10, reasoning_trace = [] \<rparr>
   \<and> r_is_done (fst (projr (process_turn (example_env (decide ''advance'' None))
        example_request example_plan ''{}'' example_world)))
   \<and> ended_at (w_session (snd (projr (process_turn (example_env (decide ''advance'' None))
        example_request example_plan ''{}'' example_world)))) = None"
proof -
  let ?env = "example_env (decide ''advance'' None)"
  obtain r where ready: "begin_turn ?env example_request example_plan ''{}'' example_world = Ready r"
    using example_ready by blast
  have adv: "advances (run_reasoning ?env (rd_context r))"
    by (simp add: run_reasoning_def example_env_def decide_def advances_def)
  from finish_turn_advance [OF ready adv] obtain resp w' where
    "process_turn ?env example_request example_plan ''{}'' example_world = Inr (resp, w')"
    "r_is_done resp = (s_question_index (stored example_world) + 1 \<ge> int (length example_plan))"
    "ended_at (w_session w') = ended_at (w_session example_world)"
    "at_agent_analysis_json (last (w_turns w')) = run_reasoning ?env (rd_context r)"
    by (auto simp: process_turn_Ready [OF ready])
  moreover have "run_reasoning ?env (rd_context r)
       = \<lparr> action = ''advance'', message = None, d_followup_question = None,
           satisfaction_score = 3 / 10, reasoning_trace = [] \<rparr>"
    by (simp add: run_reasoning_def example_env_def decide_def)
  moreover have "ended_at (w_session example_world) = None" "int (length example_plan) = 1"
    by (simp_all add: example_world_def example_plan_def)
  ultimately show ?thesis
    by (simp add: example_stored)
qed

text \<open>
  C1 (amended). A session whose stored state has \<open>followup_count = 0\<close> and
  \<open>question_index = len(plan)\<close> gets \<open>is_done = True\<close> from the next \<open>process_turn\<close>
  call, which records no turn and sets the end time. A call that advances returns
  \<open>is_done = True\<close> in its own response exactly when the new index reaches the end of the
  plan, and never sets the end time of the session; when the index has reached the end,
  the next call, whatever it is given, is the one that sets the end time, returns
  \<open>is_done = True\<close> and records no turn.
\<close>

theorem completion_reported_then_marked:
  "(s_followup_count (stored w) = 0 \<and> s_question_index (stored w) = int (length plan_items)
      \<longrightarrow> (\<exists>resp w'. process_turn env request plan_items role_profile w = Inr (resp, w')
             \<and> r_is_done resp \<and> w_turns w' = w_turns w
             \<and> ended_at (w_session w') = Some (utcnow env)))
   \<and> (\<forall>r. begin_turn env request plan_items role_profile w = Ready r
          \<and> advances (run_reasoning env (rd_context r))
      \<longrightarrow> (\<exists>resp w'. process_turn env request plan_items role_profile w = Inr (resp, w')
             \<and> r_is_done resp = (s_question_index (stored w) + 1 \<ge> int (length plan_items))
             \<and> ended_at (w_session w') = ended_at (w_session w)
             \<and> (s_question_index (stored w) + 1 \<ge> int (length plan_items) \<longrightarrow>
                 (\<forall>env' request' role_profile'.
                    \<exists>resp2 w''. process_turn env' request' plan_items role_profile' w' = Inr (resp2, w'')
                       \<and> r_is_done resp2 \<and> w_turns w'' = w_turns w'
                       \<and> ended_at (w_session w'') = Some (utcnow env')))))"
proof -
  have a: "\<exists>resp w'. process_turn env request plan_items role_profile w = Inr (resp, w')
             \<and> r_is_done resp \<and> w_turns w' = w_turns w
             \<and> ended_at (w_session w') = Some (utcnow env)"
    if "s_followup_count (stored w) = 0" "s_question_index (stored w) \<ge> int (length plan_items)"
    for env request role_profile w
    using complete_turn [OF that, of env request role_profile]
    by (simp add: complete_response_def)
  have b: "\<exists>resp w'. process_turn env request plan_items role_profile w = Inr (resp, w')
             \<and> r_is_done resp = (s_question_index (stored w) + 1 \<ge> int (length plan_items))
             \<and> ended_at (w_session w') = ended_at (w_session w)
             \<and> (s_question_index (stored w) + 1 \<ge> int (length plan_items) \<longrightarrow>
                 (\<forall>env' request' role_profile'.
                    \<exists>resp2 w''. process_turn env' request' plan_items role_profile' w' = Inr (resp2, w'')
                       \<and> r_is_done resp2 \<and> w_turns w'' = w_turns w'
                       \<and> ended_at (w_session w'') = Some (utcnow env')))"
    if ready: "begin_turn env request plan_items role_profile w = Ready r"
      and adv: "advances (run_reasoning env (rd_context r))" for r
  proof -
    from finish_turn_advance [OF ready adv] obtain resp w' where
      ft: "finish_turn env request plan_items r (run_reasoning env (rd_context r)) = Inr (resp, w')"
      and dn: "r_is_done resp = (s_question_index (stored w) + 1 \<ge> int (length plan_items))"
      and st: "s_question_index (stored w') = s_question_index (stored w) + 1"
        "s_followup_count (stored w') = 0"
      and en: "ended_at (w_session w') = ended_at (w_session w)"
      by blast
    have nx: "\<forall>env' request' role_profile'.
           \<exists>resp2 w''. process_turn env' request' plan_items role_profile' w' = Inr (resp2, w'')
              \<and> r_is_done resp2 \<and> w_turns w'' = w_turns w'
              \<and> ended_at (w_session w'') = Some (utcnow env')"
      if last: "s_question_index (stored w) + 1 \<ge> int (length plan_items)"
    proof -
      from st last have "s_question_index (stored w') \<ge> int (length plan_items)" by simp
      from a [OF st(2) this] show ?thesis by blast
    qed
    from ft dn en nx show ?thesis
      by (simp add: process_turn_Ready [OF ready])
  qed
  from a have a': "s_followup_count (stored w) = 0 \<and> s_question_index (stored w) = int (length plan_items)
      \<longrightarrow> (\<exists>resp w'. process_turn env request plan_items role_profile w = Inr (resp, w')
             \<and> r_is_done resp \<and> w_turns w' = w_turns w
             \<and> ended_at (w_session w') = Some (utcnow env))"
    by simp
  from b have b': "\<forall>r. begin_turn env request plan_items role_profile w = Ready r
          \<and> advances (run_reasoning env (rd_context r))
      \<longrightarrow> (\<exists>resp w'. process_turn env request plan_items role_profile w = Inr (resp, w')
             \<and> r_is_done resp = (s_question_index (stored w) + 1 \<ge> int (length plan_items))
             \<and> ended_at (w_session w') = ended_at (w_session w)
             \<and> (s_question_index (stored w) + 1 \<ge> int (length plan_items) \<longrightarrow>
                 (\<forall>env' request' role_profile'.
                    \<exists>resp2 w''. process_turn env' request' plan_items role_profile' w' = Inr (resp2, w'')
                       \<and> r_is_done resp2 \<and> w_turns w'' = w_turns w'
                       \<and> ended_at (w_session w'') = Some (utcnow env'))))"
    by blast
  from a' b' show ?thesis by (rule conjI)
qed

theorem completion_reported_then_marked_witness:
  "s_question_index (stored example_world) + 1 \<ge> int (length example_plan)
   \<and> r_is_done (fst (projr (process_turn (example_env (decide ''advance'' None))
        example_request example_plan ''{}'' example_world)))
   \<and> ended_at (w_session (snd (projr (process_turn (example_env (decide ''advance'' None))
        example_request example_plan ''{}'' example_world)))) = None
   \<and> s_followup_count (stored (snd (projr (process_turn (example_env (decide ''advance'' None))
        example_request example_plan ''{}'' example_world)))) = 0
   \<and> s_question_index (stored (snd (projr (process_turn (example_env (decide ''advance'' None))
        example_request example_plan ''{}'' example_world)))) = int (length example_plan)
   \<and> r_is_done (fst (projr (process_turn (example_env failing) example_request example_plan ''{}''
        (snd (projr (process_turn (example_env (decide ''advance'' None))
           example_request example_plan ''{}'' example_world))))))
   \<and> ended_at (w_session (snd (projr (process_turn (example_env failing) example_request
        example_plan ''{}''
        (snd (projr (process_turn (example_env (decide ''advance'' None))
           example_request example_plan ''{}'' example_world))))))) = Some 1000
   \<and> length (w_turns (snd (projr (process_turn (example_env failing) example_request
        example_plan ''{}''
        (snd (projr (process_turn (example_env (decide ''advance'' None))
           example_request example_plan ''{}'' example_world))))))) = 1"
proof -
  let ?env = "example_env (decide ''advance'' None)"
  obtain r where ready: "begin_turn ?env example_request example_plan ''{}'' example_world = Ready r"
    using example_ready by blast
  have adv: "advances (run_reasoning ?env (rd_context r))"
    by (simp add: run_reasoning_def example_env_def decide_def advances_def)
  have last: "s_question_index (stored example_world) + 1 \<ge> int (length example_plan)"
    by (simp add: example_stored example_plan_def)
  from completion_reported_then_marked [of example_world example_plan ?env example_request "''{}''"]
    ready adv last
  obtain resp w' where
    pt: "process_turn ?env example_request example_plan ''{}'' example_world = Inr (resp, w')"
    and dn: "r_is_done resp"
    and en: "ended_at (w_session w') = ended_at (w_session example_world)"
    and nx: "\<forall>env' request' role_profile'.
           \<exists>resp2 w''. process_turn env' request' example_plan role_profile' w' = Inr (resp2, w'')
              \<and> r_is_done resp2 \<and> w_turns w'' = w_turns w'
              \<and> ended_at (w_session w'') = Some (utcnow env')"
    by blast
  from nx obtain resp2 w'' where
    p2: "process_turn (example_env failing) example_request example_plan ''{}'' w' = Inr (resp2, w'')"
    and d2: "r_is_done resp2" "w_turns w'' = w_turns w'"
      "ended_at (w_session w'') = Some (utcnow (example_env failing))"
    by blast
  from finish_turn_advance [OF ready adv] pt
  have st: "s_followup_count (stored w') = 0"
    "s_question_index (stored w') = s_question_index (stored example_world) + 1"
    "length (w_turns w') = length (w_turns example_world) + 1"
    by (auto simp: process_turn_Ready [OF ready])
  have v: "ended_at (w_session example_world) = None" "utcnow (example_env failing) = 1000"
    "length (w_turns example_world) = 0" "int (length example_plan) = 1"
    by (simp_all add: example_world_def example_env_def example_plan_def)
  from last dn en st d2 show ?thesis
    by (simp add: pt p2 example_stored v)
qed

text \<open>
  The claimed update fails for a follow-up decision that carries no follow-up text: the
  code processes it as an advance. From \<open>(question_index, followup_count) = (0, 0)\<close> the
  stored state becomes \<open>(1, 0)\<close>, not \<open>(0, 1)\<close>.
\<close>

theorem followup_without_text_counterexample:
  "s_question_index (stored example_world) = 0
   \<and> s_followup_count (stored example_world) = 0
   \<and> at_agent_analysis_json (last (w_turns (snd (projr (process_turn
        (example_env (decide ''followup'' None)) example_request example_plan ''{}'' example_world)))))
       = \<lparr> action = ''followup'', message = None, d_followup_question = None,
           satisfaction_score = 3 / 10, reasoning_trace = [] \<rparr>
   \<and> s_question_index (stored (snd (projr (process_turn (example_env (decide ''followup'' None))
        example_request example_plan ''{}'' example_world)))) = 1
   \<and> s_followup_count (stored (snd (projr (process_turn (example_env (decide ''followup'' None))
        example_request example_plan ''{}'' example_world)))) = 0"
proof -
  let ?env = "example_env (decide ''followup'' None)"
  obtain r where ready: "begin_turn ?env example_request example_plan ''{}'' example_world = Ready r"
    using example_ready by blast
  have adv: "advances (run_reasoning ?env (rd_context r))"
    by (simp add: run_reasoning_def example_env_def decide_def advances_def)
  from finish_turn_advance [OF ready adv] obtain resp w' where
    "process_turn ?env example_request example_plan ''{}'' example_world = Inr (resp, w')"
    "s_question_index (stored w') = s_question_index (stored example_world) + 1"
    "s_followup_count (stored w') = 0"
    "at_agent_analysis_json (last (w_turns w')) = run_reasoning ?env (rd_context r)"
    by (auto simp: process_turn_Ready [OF ready])
  moreover have "run_reasoning ?env (rd_context r)
       = \<lparr> action = ''followup'', message = None, d_followup_question = None,
           satisfaction_score = 3 / 10, reasoning_trace = [] \<rparr>"
    by (simp add: run_reasoning_def example_env_def decide_def)
  ultimately show ?thesis
    by (simp add: example_stored)
qed

text \<open>
  C5 (amended). On a turn that reaches the decision, a follow-up decision that carries a
  follow-up text increments \<open>followup_count\<close> by 1, leaves \<open>question_index\<close> unchanged,
  appends the text to \<open>previous_followups\<close> and stores the satisfaction score as
  \<open>initial_answer_score\<close>. A decision of the last branch (an advance, any unknown action,
  or a follow-up without text) resets \<open>followup_count\<close> to 0, clears
  \<open>previous_followups\<close> and increments \<open>question_index\<close> by 1.
\<close>

theorem decision_state_update:
  assumes "begin_turn env request plan_items role_profile w = Ready r"
    and "reasoning_run env (rd_context r) = Inr d"
  shows "(action d = ''followup'' \<and> truthy_str (d_followup_question d) \<longrightarrow>
           (\<exists>resp w'. process_turn env request plan_items role_profile w = Inr (resp, w')
              \<and> s_followup_count (stored w') = s_followup_count (stored w) + 1
              \<and> s_question_index (stored w') = s_question_index (stored w)
              \<and> s_previous_followups (stored w')
                  = s_previous_followups (stored w) @ [the (d_followup_question d)]
              \<and> s_initial_answer_score (stored w') = satisfaction_score d))
       \<and> (advances d \<longrightarrow>
           (\<exists>resp w'. process_turn env request plan_items role_profile w = Inr (resp, w')
              \<and> s_followup_count (stored w') = 0
              \<and> s_previous_followups (stored w') = []
              \<and> s_question_index (stored w') = s_question_index (stored w) + 1))
       \<and> (action d = ''advance'' \<longrightarrow> advances d)"
proof -
  note b = begin_turn_Ready [OF assms(1)]
  from assms(2) have d: "run_reasoning env (rd_context r) = d"
    by (simp add: run_reasoning_def)
  have pt: "process_turn env request plan_items role_profile w
      = finish_turn env request plan_items r d"
    by (simp add: process_turn_Ready [OF assms(1)] d)
  have f: "\<exists>resp w'. process_turn env request plan_items role_profile w = Inr (resp, w')
              \<and> s_followup_count (stored w') = s_followup_count (stored w) + 1
              \<and> s_question_index (stored w') = s_question_index (stored w)
              \<and> s_previous_followups (stored w')
                  = s_previous_followups (stored w) @ [the (d_followup_question d)]
              \<and> s_initial_answer_score (stored w') = satisfaction_score d"
    if "action d = ''followup''" "truthy_str (d_followup_question d)"
  proof -
    let ?turn = "create_turn env request (rd_question r) (rd_question_index r)
                   (rd_followup_count r) d (w_turns (rd_world r))"
    let ?w2 = "(rd_world r) \<lparr> w_turns := w_turns (rd_world r) @ [?turn] \<rparr>"
    from process_decision_followup [OF that, of env "rd_question r" "rd_question_id r"
        "rd_question_index r" "rd_followup_count r" "rd_previous_followups r" plan_items
        "rd_state r" "rd_language r" ?w2]
    obtain resp where
      "finish_turn env request plan_items r d
        = Inr (resp, save_state ?w2 ((rd_state r) \<lparr> s_current_question_id := rd_question_id r,
                s_followup_count := rd_followup_count r + 1,
                s_initial_answer_score := satisfaction_score d,
                s_previous_followups := rd_previous_followups r @ [the (d_followup_question d)] \<rparr>))"
      by (auto simp: finish_turn_def Let_def)
    with b show ?thesis
      by (simp add: pt stored_save_state)
  qed
  have a: "\<exists>resp w'. process_turn env request plan_items role_profile w = Inr (resp, w')
              \<and> s_followup_count (stored w') = 0
              \<and> s_previous_followups (stored w') = []
              \<and> s_question_index (stored w') = s_question_index (stored w) + 1"
    if "advances d"
    using finish_turn_advance [OF assms(1) that] by (auto simp: pt)
  have c: "action d = ''advance'' \<longrightarrow> advances d"
    by (simp add: advances_def)
  from f a c show ?thesis by blast
qed

theorem decision_state_update_witness:
  "s_followup_count (stored (snd (projr (process_turn (example_env (decide ''followup'' (Some ''Why?'')))
        example_request example_plan ''{}'' example_world)))) = 1
   \<and> s_question_index (stored (snd (projr (process_turn (example_env (decide ''followup'' (Some ''Why?'')))
        example_request example_plan ''{}'' example_world)))) = 0
   \<and> s_previous_followups (stored (snd (projr (process_turn (example_env (decide ''followup'' (Some ''Why?'')))
        example_request example_plan ''{}'' example_world)))) = [''Why?'']
   \<and> s_initial_answer_score (stored (snd (projr (process_turn
        (example_env (decide ''followup'' (Some ''Why?'')))
        example_request example_plan ''{}'' example_world)))) = 3 / 10
   \<and> s_followup_count (stored (snd (projr (process_turn (example_env (decide ''advance'' None))
        example_request example_plan ''{}'' example_world)))) = 0
   \<and> s_question_index (stored (snd (projr (process_turn (example_env (decide ''advance'' None))
        example_request example_plan ''{}'' example_world)))) = 1"
proof -
  let ?fenv = "example_env (decide ''followup'' (Some ''Why?''))"
  let ?aenv = "example_env (decide ''advance'' None)"
  let ?fd = "\<lparr> action = ''followup'', message = None, d_followup_question = Some ''Why?'',
               satisfaction_score = 3 / 10, reasoning_trace = [] \<rparr>"
  let ?ad = "\<lparr> action = ''advance'', message = None, d_followup_question = None,
               satisfaction_score = 3 / 10, reasoning_trace = [] \<rparr>"
  obtain rf where rf: "begin_turn ?fenv example_request example_plan ''{}'' example_world = Ready rf"
    using example_ready by blast
  obtain ra where ra: "begin_turn ?aenv example_request example_plan ''{}'' example_world = Ready ra"
    using example_ready by blast
  have df: "reasoning_run ?fenv (rd_context rf) = Inr ?fd"
    by (simp add: example_env_def decide_def)
  have da: "reasoning_run ?aenv (rd_context ra) = Inr ?ad"
    by (simp add: example_env_def decide_def)
  from decision_state_update [OF rf df] obtain resp w' where
    f: "process_turn ?fenv example_request example_plan ''{}'' example_world = Inr (resp, w')"
      "s_followup_count (stored w') = s_followup_count (stored example_world) + 1"
      "s_question_index (stored w') = s_question_index (stored example_world)"
      "s_previous_followups (stored w') = s_previous_followups (stored example_world) @ [''Why?'']"
      "s_initial_answer_score (stored w') = 3 / 10"
    by auto
  from decision_state_update [OF ra da] obtain resp2 w2 where
    a: "process_turn ?aenv example_request example_plan ''{}'' example_world = Inr (resp2, w2)"
      "s_followup_count (stored w2) = 0"
      "s_question_index (stored w2) = s_question_index (stored example_world) + 1"
    by auto
  from f a show ?thesis by (simp add: example_stored)
qed

text \<open>
  C6. On a turn that reaches the reasoning step, a failure of the reasoning loop is
  replaced by the advance decision with satisfaction score 0.5: the call returns a
  response, the recorded turn carries the score 0.5, and the stored state moves to the
  next question with \<open>followup_count = 0\<close>.
\<close>

theorem reasoning_failure_advances:
  assumes "begin_turn env request plan_items role_profile w = Ready r"
    and "reasoning_run env (rd_context r) = Inl e"
  shows "\<exists>resp w'. process_turn env request plan_items role_profile w = Inr (resp, w')
      \<and> process_turn env request plan_items role_profile w
          = finish_turn env request plan_items r fallback_decision
      \<and> action fallback_decision = ''advance''
      \<and> r_agent_decision resp = Some ''advance''
      \<and> r_agent_confidence resp = Some (5 / 10)
      \<and> s_question_index (stored w') = s_question_index (stored w) + 1
      \<and> s_followup_count (stored w') = 0
      \<and> s_previous_followups (stored w') = []
      \<and> length (w_turns w') = length (w_turns w) + 1
      \<and> at_score_overall (last (w_turns w')) = 5 / 10"
proof -
  from assms(2) have d: "run_reasoning env (rd_context r) = fallback_decision"
    by (simp add: run_reasoning_def)
  have adv: "advances fallback_decision"
    by (simp add: advances_def fallback_decision_def)
  have pt: "process_turn env request plan_items role_profile w
      = finish_turn env request plan_items r fallback_decision"
    by (simp add: process_turn_Ready [OF assms(1)] d)
  from finish_turn_advance [OF assms(1) adv] show ?thesis
    by (auto simp: pt) (simp_all add: fallback_decision_def)
qed

theorem reasoning_failure_advances_witness:
  "r_agent_decision (fst (projr (process_turn (example_env failing) example_request example_plan
        ''{}'' example_world))) = Some ''advance''
   \<and> r_agent_confidence (fst (projr (process_turn (example_env failing) example_request
        example_plan ''{}'' example_world))) = Some (5 / 10)
   \<and> s_question_index (stored (snd (projr (process_turn (example_env failing) example_request
        example_plan ''{}'' example_world)))) = 1
   \<and> s_followup_count (stored (snd (projr (process_turn (example_env failing) example_request
        example_plan ''{}'' example_world)))) = 0
   \<and> length (w_turns (snd (projr (process_turn (example_env failing) example_request
        example_plan ''{}'' example_world)))) = 1"
proof -
  let ?env = "example_env failing"
  obtain r where ready: "begin_turn ?env example_request example_plan ''{}'' example_world = Ready r"
    using example_ready by blast
  have fl: "reasoning_run ?env (rd_context r) = Inl RuntimeError"
    by (simp add: example_env_def failing_def)
  from reasoning_failure_advances [OF ready fl] obtain resp w' where
    "process_turn ?env example_request example_plan ''{}'' example_world = Inr (resp, w')"
    "r_agent_decision resp = Some ''advance''"
    "r_agent_confidence resp = Some (5 / 10)"
    "s_question_index (stored w') = s_question_index (stored example_world) + 1"
    "s_followup_count (stored w') = 0"
    "length (w_turns w') = length (w_turns example_world) + 1"
    by blast
  moreover have "length (w_turns example_world) = 0"
    by (simp add: example_world_def)
  ultimately show ?thesis
    by (simp add: example_stored)
qed

text \<open>
  The cache of refined texts is written but never read back: \<open>_load_state\<close> rebuilds the
  state from five fixed keys and drops every \<open>refined_q_<index>\<close> key.
\<close>

lemma loaded_state_has_no_cache: "s_refined_q (load_state interview_session) i = None"
  by simp

text \<open>
  C8 fails on the code. Two turns on the same slot 0 (the decision is a hint both times):
  the first turn stores the refined text \<open>Refined A\<close> under the slot's key, the second
  turn calls the refinement again and presents \<open>Refined B\<close>.
\<close>

theorem refinement_cache_not_reused:
  "cs_refined_q (the (conversation_state_json (w_session example_after_first))) 0 = Some ''Refined A''
   \<and> s_question_index (stored example_after_first) = 0
   \<and> w_llm_calls example_after_first = 1
   \<and> map at_question_snapshot (w_turns example_after_second) = [''Refined A'', ''Refined B'']
   \<and> w_llm_calls example_after_second = 2"
  using example_after_second_facts
  by (simp add: example_after_first_eq stored_def load_state_def)

end
